theory Spec2Isabelle
  imports Complex_Main "HOL-Library.AList"
begin

section \<open>Values of the interpreter\<close>

text \<open>
  The interpreter of \<^verbatim>\<open>scheme.js\<close> works on plain JavaScript values. The model keeps the
  kinds of value the interpreter can meet:
  \<^item> numbers (one number type: the host has no separate integers). A finite number is
    modelled as an exact rational; rounding to binary64 and the sign of zero are not
    modelled;
  \<^item> booleans, the value \<^verbatim>\<open>undefined\<close>;
  \<^item> primitive strings (\<open>Str\<close>): the symbols of the syntax tree. A string is a list of
    8-bit characters, standing for code units below 256;
  \<^item> \<^verbatim>\<open>StringLiteral\<close> objects, arrays (the lists of the syntax tree);
  \<^item> functions: the natives of \<^verbatim>\<open>lisp_defaults\<close> (\<open>Prim\<close>) and the function objects
    made by \<^verbatim>\<open>lambda\<close> (\<open>Closure\<close>: the variables, the expression and the
    address of the captured \<^verbatim>\<open>Env\<close>);
  \<^item> \<^verbatim>\<open>Env\<close> objects, by address into a store (\<open>EnvRef\<close>);
  \<^item> \<open>Host k\<close>: the object a property name \<open>k\<close> inherited from
    \<^verbatim>\<open>Env.prototype\<close> or \<^verbatim>\<open>Object.prototype\<close> gives (always truthy, otherwise opaque).
\<close>

datatype jsnum = NaN | Fin rat | PosInf | NegInf

datatype prim =
  Add | Sub | Mul | Div | Eq | Gt | Lt | And | Or | Not
  | Length | List | Car | Cdr | Cons

type_synonym addr = nat

datatype val =
    Undefined
  | Num jsnum
  | Bool bool
  | Str string
  | StringLiteral string
  | Arr "val list"
  | Prim prim
  | Closure val val addr
  | EnvRef addr
  | Host string

text \<open>
  What a call can end with other than a value: the \<^verbatim>\<open>SyntaxError\<close> of the source
  (with its message), a \<^verbatim>\<open>TypeError\<close> of the host, the end of the fuel of the model,
  and \<open>Unmodelled\<close>: the host would go on in a way this model does not describe
  (conversions of objects and numbers to strings, comparing objects by identity,
  a store that is not one the constructor builds).
\<close>

datatype error = SyntaxError string | TypeError | OutOfFuel | Unmodelled

text \<open>
  An \<^verbatim>\<open>Env\<close> object is its own properties in insertion order, \<^verbatim>\<open>_parent\<close> among
  them; the store holds the \<^verbatim>\<open>Env\<close> objects by address.
\<close>

type_synonym obj = "(string \<times> val) list"
type_synonym store = "obj list"

section \<open>Host operations\<close>

text \<open>Truthiness (\<^verbatim>\<open>ToBoolean\<close>).\<close>

fun truthy :: "val \<Rightarrow> bool" where
  "truthy Undefined = False"
| "truthy (Num NaN) = False"
| "truthy (Num (Fin q)) = (q \<noteq> 0)"
| "truthy (Num PosInf) = True"
| "truthy (Num NegInf) = True"
| "truthy (Bool b) = b"
| "truthy (Str s) = (s \<noteq> [])"
| "truthy (StringLiteral s) = True"
| "truthy (Arr xs) = True"
| "truthy (Prim p) = True"
| "truthy (Closure vs e a) = True"
| "truthy (EnvRef a) = True"
| "truthy (Host k) = True"

text \<open>
  The property names every \<^verbatim>\<open>Env\<close> object inherits: \<^verbatim>\<open>find\<close> and \<^verbatim>\<open>insert\<close>
  of \<^verbatim>\<open>Env.prototype\<close>, and the properties of \<^verbatim>\<open>Object.prototype\<close>.
\<close>

definition inherited_names :: "string list" where
  "inherited_names =
     [''find'', ''insert'', ''constructor'', ''toString'', ''toLocaleString'', ''valueOf'',
      ''hasOwnProperty'', ''isPrototypeOf'', ''propertyIsEnumerable'', ''__proto__'',
      ''__defineGetter__'', ''__defineSetter__'', ''__lookupGetter__'', ''__lookupSetter__'']"

text \<open>Reading \<^verbatim>\<open>this[k]\<close>: an own property first, then the prototype chain.\<close>

definition get_prop :: "obj \<Rightarrow> string \<Rightarrow> val" where
  "get_prop ob k =
     (case map_of ob k of
        Some v \<Rightarrow> v
      | None \<Rightarrow> if k \<in> set inherited_names then Host k else Undefined)"

text \<open>
  The property key a value gives (\<^verbatim>\<open>ToPropertyKey\<close>). Only strings are modelled;
  the host would convert any other value to a string.
\<close>

fun prop_key :: "val \<Rightarrow> string option" where
  "prop_key (Str s) = Some s"
| "prop_key v = None"

text \<open>
  White space of the host (\<^verbatim>\<open>\s\<close> of a regular expression and the white space that
  \<^verbatim>\<open>parseInt\<close>, \<^verbatim>\<open>parseFloat\<close> and \<^verbatim>\<open>Number\<close> strip), among the code units below
  256: tab, line feed, vertical tab, form feed, carriage return, space, no-break space.
  A line terminator is what \<^verbatim>\<open>.\<close> of a regular expression does not match.
\<close>

definition is_ws :: "char \<Rightarrow> bool" where
  "is_ws c = (c \<in> set [CHR 0x09, CHR 0x0A, CHR 0x0B, CHR 0x0C, CHR 0x0D, CHR 0x20, CHR 0xA0])"

definition is_line_terminator :: "char \<Rightarrow> bool" where
  "is_line_terminator c = (c = CHR 0x0A \<or> c = CHR 0x0D)"

text \<open>
  The value of a digit in a radix up to 16, if it is one: \<^verbatim>\<open>0\<close> to \<^verbatim>\<open>9\<close> are the
  codes 48 to 57, \<^verbatim>\<open>a\<close> to \<^verbatim>\<open>f\<close> 97 to 102, \<^verbatim>\<open>A\<close> to \<^verbatim>\<open>F\<close> 65 to 70.
\<close>

definition digit_of :: "nat \<Rightarrow> char \<Rightarrow> nat option" where
  "digit_of R c =
     (let n = (of_char c :: nat);
          d = (if 48 \<le> n \<and> n \<le> 57 then n - 48
               else if 97 \<le> n \<and> n \<le> 102 then n - 87
               else if 65 \<le> n \<and> n \<le> 70 then n - 55
               else 16)
      in if d < R then Some d else None)"

definition is_digit :: "nat \<Rightarrow> char \<Rightarrow> bool" where
  "is_digit R c = (digit_of R c \<noteq> None)"

definition digits_val :: "nat \<Rightarrow> string \<Rightarrow> nat" where
  "digits_val R ds = foldl (\<lambda>acc c. acc * R + the (digit_of R c)) 0 ds"

text \<open>Equality of numbers: \<^verbatim>\<open>NaN\<close> equals nothing, itself included.\<close>

fun num_eq :: "jsnum \<Rightarrow> jsnum \<Rightarrow> bool" where
  "num_eq NaN b = False"
| "num_eq a NaN = False"
| "num_eq a b = (a = b)"

text \<open>An optional sign in front of a numeral: the factor and the rest.\<close>

fun strip_sign :: "string \<Rightarrow> rat \<times> string" where
  "strip_sign [] = (1, [])"
| "strip_sign (c # cs) =
     (if c = CHR ''-'' then (- 1, cs) else if c = CHR ''+'' then (1, cs) else (1, c # cs))"

text \<open>
  \<^verbatim>\<open>parseInt(string)\<close> with no radix: leading white space is dropped, then a sign, then
  \<^verbatim>\<open>0x\<close> or \<^verbatim>\<open>0X\<close> selects radix 16; the value is that of the longest run of digits,
  \<^verbatim>\<open>NaN\<close> when there is none. What follows the digits is ignored. The result is the
  exact value of the digits; the host returns the binary64 nearest to it, which is the
  same number up to \<open>2 ^ 53\<close> and may differ beyond.
\<close>

definition parseInt :: "string \<Rightarrow> jsnum" where
  "parseInt str =
     (let (sign, S) = strip_sign (dropWhile is_ws str);
          (R, S) = (if take 2 S = ''0x'' \<or> take 2 S = ''0X'' then (16, drop 2 S) else (10, S));
          Z = takeWhile (is_digit R) S
      in if Z = [] then NaN else Fin (sign * of_nat (digits_val R Z)))"

text \<open>
  The longest prefix of a string that is a \<^verbatim>\<open>StrDecimalLiteral\<close> of the host grammar
  (sign, then \<^verbatim>\<open>Infinity\<close> or digits with an optional fraction and exponent): its value
  and what follows it; \<open>None\<close> when no prefix is one.
\<close>

definition scale10 :: "rat \<Rightarrow> string \<Rightarrow> string \<Rightarrow> rat" where
  "scale10 m esign ed =
     (if esign = ''-'' then m / 10 ^ digits_val 10 ed else m * 10 ^ digits_val 10 ed)"

definition exponent_part :: "rat \<Rightarrow> string \<Rightarrow> rat \<times> string" where
  "exponent_part m r =
     (case r of
        [] \<Rightarrow> (m, r)
      | e # r1 \<Rightarrow>
          if e = CHR ''e'' \<or> e = CHR ''E'' then
            (let (esign, r2) =
                   (case r1 of
                      [] \<Rightarrow> ([], r1)
                    | c # cs \<Rightarrow> if c = CHR ''-'' \<or> c = CHR ''+'' then ([c], cs) else ([], r1));
                 ed = takeWhile (is_digit 10) r2
             in if ed = [] then (m, r) else (scale10 m esign ed, dropWhile (is_digit 10) r2))
          else (m, r))"

definition str_decimal :: "string \<Rightarrow> (jsnum \<times> string) option" where
  "str_decimal str =
     (let (sign, S) = strip_sign str in
      if take 8 S = ''Infinity'' then Some (if sign < 0 then NegInf else PosInf, drop 8 S)
      else
        let ip = takeWhile (is_digit 10) S;
            r1 = dropWhile (is_digit 10) S;
            (fp, r2) = (case r1 of
                          [] \<Rightarrow> ([], r1)
                        | c # cs \<Rightarrow>
                            if c = CHR ''.'' \<and> (ip \<noteq> [] \<or> takeWhile (is_digit 10) cs \<noteq> [])
                            then (takeWhile (is_digit 10) cs, dropWhile (is_digit 10) cs)
                            else ([], r1))
        in if ip = [] \<and> fp = [] then None
           else
             let (m, r3) = exponent_part (of_nat (digits_val 10 (ip @ fp)) / 10 ^ length fp) r2
             in Some (Fin (sign * m), r3))"

text \<open>
  \<^verbatim>\<open>parseFloat(string)\<close>: leading white space is dropped; what follows the numeral is
  ignored. The result is the exact value of the numeral; the host returns the binary64
  nearest to it (an infinity or zero when the numeral is out of range), which is the
  same number exactly when the numeral denotes a binary64.
\<close>

definition parseFloat :: "string \<Rightarrow> jsnum" where
  "parseFloat str =
     (case str_decimal (dropWhile is_ws str) of None \<Rightarrow> NaN | Some (v, r) \<Rightarrow> v)"

text \<open>
  \<^verbatim>\<open>isNaN(token)\<close> on a string converts it with \<^verbatim>\<open>Number\<close>, which reads the whole
  string: white space is trimmed at both ends, the empty string is 0, and otherwise the
  string must be a complete decimal literal or a complete \<^verbatim>\<open>0x\<close>, \<^verbatim>\<open>0o\<close> or
  \<^verbatim>\<open>0b\<close> literal (ECMAScript 2015).
\<close>

definition nondecimal_literal :: "string \<Rightarrow> bool" where
  "nondecimal_literal t =
     (let R = (if take 2 t = ''0x'' \<or> take 2 t = ''0X'' then 16
               else if take 2 t = ''0o'' \<or> take 2 t = ''0O'' then 8
               else if take 2 t = ''0b'' \<or> take 2 t = ''0B'' then 2
               else 0)
      in R \<noteq> 0 \<and> drop 2 t \<noteq> [] \<and> list_all (is_digit R) (drop 2 t))"

definition isNaN_string :: "string \<Rightarrow> bool" where
  "isNaN_string token =
     (let t = rev (dropWhile is_ws (rev (dropWhile is_ws token))) in
      if t = [] then False
      else (case str_decimal t of
              Some (v, []) \<Rightarrow> False
            | _ \<Rightarrow> \<not> nondecimal_literal t))"

section \<open>The atom classifier\<close>

text \<open>
  The test \<^verbatim>\<open>/".*"/.test(token)\<close>: somewhere in the token there are two double quotes
  with no line terminator between them. The expression is not anchored.
\<close>

fun quoted_test :: "string \<Rightarrow> bool" where
  "quoted_test [] = False"
| "quoted_test (c # cs) =
     ((c = CHR 0x22 \<and> CHR 0x22 \<in> set (takeWhile (\<lambda>d. \<not> is_line_terminator d) cs))
      \<or> quoted_test cs)"

text \<open>\<^verbatim>\<open>token.slice(1, -1)\<close>: from index 1 up to, not including, the last index.\<close>

definition slice_1_m1 :: "string \<Rightarrow> string" where
  "slice_1_m1 token = take ((length token - 1) - 1) (drop 1 token)"

text \<open>
  \<^verbatim>\<open>
  var atom = function(token) {
    var value = parseInt(token);
    if (value == NaN || isNaN(token)) {
      if (token == '#f' || token == '#F')
        return false;
      else if (token == '#t' || token == '#T')
        return true;
      if (/".*"/.test(token))
        return new StringLiteral(token.slice(1, -1));
      else
        return token;
    } else if (parseFloat(token) != value) {
      return parseFloat(token);
    } else {
      return value;
    }
  }
  \<close>
\<close>

definition atom :: "string \<Rightarrow> val" where
  "atom token =
     (let value = parseInt token in
      if num_eq value NaN \<or> isNaN_string token then
        if token = ''#f'' \<or> token = ''#F'' then Bool False
        else if token = ''#t'' \<or> token = ''#T'' then Bool True
        else if quoted_test token then StringLiteral (slice_1_m1 token)
        else Str token
      else if \<not> num_eq (parseFloat token) value then Num (parseFloat token)
      else Num value)"

section \<open>Tokenizer and reader\<close>

text \<open>
  \<^verbatim>\<open>
  var tokenize = function(s) {
    return s
      .replace(/([()])/g ,' $1 ') // add spacing for parentheses
      .replace(/;(.*)\n/g, ' ')   // replace anything between ; and \n with spaces
      .match(/[^;]*/g)[0]         // match resulting string until ;
      .match(/\S+/g);             // split string by whitespace
  }
  \<close>
  Each step is one function. The second expression matches at a \<^verbatim>\<open>;\<close> when the
  first line terminator after it is a line feed (\<^verbatim>\<open>.\<close> matches no line terminator),
  and then takes everything up to and including that line feed. The last
  \<^verbatim>\<open>match\<close> gives \<^verbatim>\<open>null\<close> (\<open>None\<close>) when there is no match.
\<close>

definition pad_parens :: "string \<Rightarrow> string" where
  "pad_parens s =
     concat (map (\<lambda>c. if c = CHR ''('' \<or> c = CHR '')'' then [CHR '' '', c, CHR '' ''] else [c]) s)"

fun comment_end :: "string \<Rightarrow> string option" where
  "comment_end [] = None"
| "comment_end (c # cs) =
     (if c = CHR 0x0A then Some cs
      else if is_line_terminator c then None
      else comment_end cs)"

lemma comment_end_length: "comment_end cs = Some r \<Longrightarrow> length r < length cs"
  by (induction cs) (auto split: if_splits)

function strip_comments :: "string \<Rightarrow> string" where
  "strip_comments [] = []"
| "strip_comments (c # cs) =
     (if c = CHR '';'' then
        (case comment_end cs of
           Some r \<Rightarrow> CHR '' '' # strip_comments r
         | None \<Rightarrow> c # strip_comments cs)
      else c # strip_comments cs)"
  by pat_completeness auto
termination
  by (relation "measure length") (auto dest: comment_end_length)

definition until_semicolon :: "string \<Rightarrow> string" where
  "until_semicolon s = takeWhile (\<lambda>c. c \<noteq> CHR '';'') s"

text \<open>The maximal runs of characters that are not white space, left to right.\<close>

fun non_space_runs :: "string \<Rightarrow> string \<Rightarrow> string list" where
  "non_space_runs cur [] = (if cur = [] then [] else [cur])"
| "non_space_runs cur (c # cs) =
     (if is_ws c then (if cur = [] then non_space_runs [] cs else cur # non_space_runs [] cs)
      else non_space_runs (cur @ [c]) cs)"

definition tokenize :: "string \<Rightarrow> string list option" where
  "tokenize s =
     (case non_space_runs [] (until_semicolon (strip_comments (pad_parens s))) of
        [] \<Rightarrow> None
      | t # ts \<Rightarrow> Some (t # ts))"

text \<open>
  \<^verbatim>\<open>
  var nested_repr = function(tokens) {
    if (tokens.length == 0) {
      throw new SyntaxError("unexpected EOL");
    }
    var tok = tokens.shift();
    if (tok == '(') {
      var l = [];
      while (tokens[0] != ')') {
        l.push(nested_repr(tokens));
      }
      tokens.shift(); // remove ')' from stack
      return l;
    } else if (tok == ')') {
      throw new SyntaxError('unexpected )');
    } else {
      return atom(tok);
    }
  }
  \<close>
  The token array is consumed from the front; the model returns the tokens left with
  the value. \<open>read_list\<close> is the \<^verbatim>\<open>while\<close> loop with the closing \<^verbatim>\<open>shift\<close>:
  \<open>l\<close> is the list built so far.
\<close>

function nested_repr :: "string list \<Rightarrow> error + (val \<times> string list)"
  and read_list :: "val list \<Rightarrow> string list \<Rightarrow> error + (val \<times> string list)" where
  "nested_repr tokens =
     (case tokens of
        [] \<Rightarrow> Inl (SyntaxError ''unexpected EOL'')
      | tok # tokens' \<Rightarrow>
          if tok = ''('' then read_list [] tokens'
          else if tok = '')'' then Inl (SyntaxError ''unexpected )'')
          else Inr (atom tok, tokens'))"
| "read_list l tokens =
     (if take 1 tokens = ['')''] then Inr (Arr l, drop 1 tokens)
      else (case nested_repr tokens of
              Inl e \<Rightarrow> Inl e
            | Inr (v, tokens') \<Rightarrow> read_list (l @ [v]) tokens'))"
  by pat_completeness auto

termination
proof -
  have consumes:
    "nested_repr_read_list_dom (Inl tokens) \<Longrightarrow>
       nested_repr tokens = Inr (v, r) \<Longrightarrow> length r < length tokens"
    "nested_repr_read_list_dom (Inr (l, tokens')) \<Longrightarrow>
       read_list l tokens' = Inr (v', r') \<Longrightarrow> length r' \<le> length tokens'"
    for tokens v r l tokens' v' r'
  proof (induction tokens and l tokens' arbitrary: v r and v' r'
         rule: nested_repr_read_list.pinduct)
    case (1 tokens)
    then show ?case
      by (cases tokens) (fastforce simp: nested_repr.psimps split: if_splits)+
  next
    case (2 l tokens)
    show ?case
    proof (cases "take 1 tokens = ['')'']")
      case True
      with 2(4) 2(1) show ?thesis by (auto simp: read_list.psimps)
    next
      case False
      with 2(4) 2(1) obtain w ts where
        nr: "nested_repr tokens = Inr (w, ts)" and rl: "read_list (l @ [w]) ts = Inr (v', r')"
        by (auto simp: read_list.psimps split: sum.splits)
      from 2(2) [OF False nr] have "length ts < length tokens" .
      moreover from 2(3) [OF False nr refl rl] have "length r' \<le> length ts" .
      ultimately show ?thesis by simp
    qed
  qed
  show ?thesis
  proof (relation "measure (\<lambda>x. case x of Inl tokens \<Rightarrow> 2 * length tokens + 1
                                           | Inr (l, tokens) \<Rightarrow> 2 * length tokens + 2)",
         goal_cases)
    case 1
    show ?case by simp
  next
    case (2 tokens tok tokens')
    then show ?case by simp
  next
    case (3 l tokens)
    then show ?case by simp
  next
    case (4 l tokens x2 v r)
    with consumes(1) [of tokens v r] show ?case by simp
  qed
qed

declare nested_repr.simps [simp del] read_list.simps [simp del]

text \<open>
  \<^verbatim>\<open>var parse = function(s) { return nested_repr(tokenize(s)) }\<close>
  On \<^verbatim>\<open>null\<close> the reader's first step, \<^verbatim>\<open>tokens.length\<close>, is a \<^verbatim>\<open>TypeError\<close> of
  the host. The tokens left after the first form are dropped with the array.
\<close>

definition parse :: "string \<Rightarrow> error + val" where
  "parse s =
     (case tokenize s of
        None \<Rightarrow> Inl TypeError
      | Some tokens \<Rightarrow>
          (case nested_repr tokens of Inl e \<Rightarrow> Inl e | Inr (v, tokens') \<Rightarrow> Inr v))"

section \<open>The environment chain\<close>

text \<open>
  \<^verbatim>\<open>
  Env.prototype.find = function(variable) {
    if (this[variable])
      return this;
    else
      if (this._parent == undefined)
        throw new SyntaxError('undefined variable `'+variable+'`');
      return this._parent.find(variable);
  }
  \<close>
  The method is reached through the property \<^verbatim>\<open>find\<close> of the receiver, so a receiver
  with an own property of that name is outside the model. The constructor gives every
  \<^verbatim>\<open>Env\<close> a parent that exists before it; the model follows \<^verbatim>\<open>_parent\<close> to
  smaller addresses only, and a link to the same or a larger address (a chain that
  user code rewired through \<^verbatim>\<open>_parent\<close>) is \<open>Unmodelled\<close>.
\<close>

function Env_find :: "store \<Rightarrow> addr \<Rightarrow> val \<Rightarrow> error + addr" where
  "Env_find s this variable =
     (if length s \<le> this then Inl Unmodelled
      else if map_of (s ! this) ''find'' \<noteq> None then Inl Unmodelled
      else case prop_key variable of
        None \<Rightarrow> Inl Unmodelled
      | Some k \<Rightarrow>
          if truthy (get_prop (s ! this) k) then Inr this
          else (case get_prop (s ! this) ''_parent'' of
                  Undefined \<Rightarrow> Inl (SyntaxError (''undefined variable `'' @ k @ ''`''))
                | EnvRef p \<Rightarrow> if p < this then Env_find s p variable else Inl Unmodelled
                | Host h \<Rightarrow> Inl Unmodelled
                | _ \<Rightarrow> Inl TypeError))"
  by pat_completeness auto
termination
  by (relation "measure (\<lambda>(s, this, variable). this)") auto

declare Env_find.simps [simp del]

text \<open>
  Writing \<^verbatim>\<open>ob[key] = v\<close> on an \<^verbatim>\<open>Env\<close> object in the store: a new key goes to
  the end, an existing key keeps its place. Assigning to \<^verbatim>\<open>__proto__\<close> would change
  the prototype, which is outside the model.
\<close>

definition set_prop :: "obj \<Rightarrow> string \<Rightarrow> val \<Rightarrow> error + obj" where
  "set_prop ob k v = (if k = ''__proto__'' then Inl Unmodelled else Inr (AList.update k v ob))"

definition put :: "addr \<Rightarrow> val \<Rightarrow> val \<Rightarrow> store \<Rightarrow> error + store" where
  "put a key v s =
     (if length s \<le> a then Inl Unmodelled
      else case prop_key key of
        None \<Rightarrow> Inl Unmodelled
      | Some k \<Rightarrow> (case set_prop (s ! a) k v of
                    Inl e \<Rightarrow> Inl e
                  | Inr ob \<Rightarrow> Inr (s[a := ob])))"

text \<open>
  \<^verbatim>\<open>
  function Env(keys, values, outerEnv) {
    if (keys && values) {
      for (var i = 0; i < keys.length; i++) {
        this[keys[i]] = values[i];
      }
    }
    this._parent = outerEnv || undefined;
  }
  \<close>
  \<open>values\<close> is the \<^verbatim>\<open>arguments\<close> object of a call (\<open>Some\<close>, always truthy) or
  absent. \<open>key_list\<close> is what the loop sees of \<open>keys\<close>: the elements of an array, the
  one-character strings of a string, nothing for a value whose \<^verbatim>\<open>length\<close> is 0 or
  \<^verbatim>\<open>undefined\<close> (the loop is not reached when \<open>keys\<close> is falsy, as
  \<^verbatim>\<open>undefined\<close> is). A value read past the end of \<open>values\<close> is \<^verbatim>\<open>undefined\<close>.
\<close>

definition arg :: "val list \<Rightarrow> nat \<Rightarrow> val" where
  "arg args i = (if i < length args then args ! i else Undefined)"

fun key_list :: "val \<Rightarrow> val list option" where
  "key_list (Arr ks) = Some ks"
| "key_list (Str s) = Some (map (\<lambda>c. Str [c]) s)"
| "key_list (Num n) = Some []"
| "key_list (Bool b) = Some []"
| "key_list (StringLiteral s) = Some []"
| "key_list (Closure vs e a) = Some []"
| "key_list Undefined = Some []"
| "key_list (Prim p) = None"
| "key_list (EnvRef a) = None"
| "key_list (Host h) = None"

fun bind_keys :: "obj \<Rightarrow> val list \<Rightarrow> val list \<Rightarrow> nat \<Rightarrow> error + obj" where
  "bind_keys this [] values i = Inr this"
| "bind_keys this (k # ks) values i =
     (case prop_key k of
        None \<Rightarrow> Inl Unmodelled
      | Some key \<Rightarrow> (case set_prop this key (arg values i) of
                      Inl e \<Rightarrow> Inl e
                    | Inr this' \<Rightarrow> bind_keys this' ks values (Suc i)))"

definition new_Env :: "val \<Rightarrow> val list option \<Rightarrow> val \<Rightarrow> error + obj" where
  "new_Env keys values outerEnv =
     (case (if truthy keys \<and> values \<noteq> None
            then (case key_list keys of
                    None \<Rightarrow> Inl Unmodelled
                  | Some ks \<Rightarrow> bind_keys [] ks (the values) 0)
            else Inr []) of
        Inl e \<Rightarrow> Inl e
      | Inr this \<Rightarrow>
          Inr (AList.update ''_parent'' (if truthy outerEnv then outerEnv else Undefined) this))"

text \<open>
  \<^verbatim>\<open>Env.prototype.insert\<close>: every entry of \<open>keys\<close> is written into the object, in
  order.
\<close>

fun Env_insert :: "obj \<Rightarrow> (string \<times> val) list \<Rightarrow> error + obj" where
  "Env_insert this [] = Inr this"
| "Env_insert this ((key, v) # keys) =
     (case set_prop this key v of Inl e \<Rightarrow> Inl e | Inr this' \<Rightarrow> Env_insert this' keys)"

section \<open>Native functions\<close>

text \<open>
  Reading \<^verbatim>\<open>v[i]\<close> for an index \<open>i\<close>: an element of an array, a one-character string
  of a string, \<^verbatim>\<open>undefined\<close> past the end and on numbers, booleans, \<^verbatim>\<open>StringLiteral\<close>
  objects and functions; a \<^verbatim>\<open>TypeError\<close> on \<^verbatim>\<open>undefined\<close>.
\<close>

fun index_val :: "val \<Rightarrow> nat \<Rightarrow> error + val" where
  "index_val (Arr xs) i = Inr (arg xs i)"
| "index_val (Str s) i = Inr (if i < length s then Str [s ! i] else Undefined)"
| "index_val Undefined i = Inl TypeError"
| "index_val (EnvRef a) i = Inl Unmodelled"
| "index_val (Host h) i = Inl Unmodelled"
| "index_val v i = Inr Undefined"

text \<open>Order on numbers: false whenever an operand is \<^verbatim>\<open>NaN\<close>.\<close>

fun num_lt :: "jsnum \<Rightarrow> jsnum \<Rightarrow> bool" where
  "num_lt (Fin x) (Fin y) = (x < y)"
| "num_lt NegInf (Fin y) = True"
| "num_lt NegInf PosInf = True"
| "num_lt (Fin x) PosInf = True"
| "num_lt a b = False"

text \<open>
  A finite number of the model is an exact rational, where the host computes in
  binary64. The two agree on the integers up to \<open>2 ^ 53\<close> in size: binary64 holds
  each of them, and a sum, difference, product or quotient of two of them that is such
  an integer again is computed without rounding. The natives answer on these numbers
  (and on \<^verbatim>\<open>NaN\<close> and the infinities where no rounding is involved); on any other
  number their answer would depend on rounding and is \<open>Unmodelled\<close>.
\<close>

definition exact_number :: "jsnum \<Rightarrow> bool" where
  "exact_number m = (case m of Fin q \<Rightarrow> q = of_int \<lfloor>q\<rfloor> \<and> \<bar>q\<bar> \<le> 2 ^ 53 | _ \<Rightarrow> True)"

text \<open>
  \<^verbatim>\<open>a === b\<close> when neither side is a \<^verbatim>\<open>StringLiteral\<close>. Arrays and closures are
  objects compared by identity, which the values of the model do not carry: \<open>None\<close>,
  as for two numbers that are not both exact.
\<close>

definition strict_eq :: "val \<Rightarrow> val \<Rightarrow> bool option" where
  "strict_eq a b =
     (case a of
        Host h \<Rightarrow> None
      | Undefined \<Rightarrow> (case b of Host h \<Rightarrow> None | Undefined \<Rightarrow> Some True | _ \<Rightarrow> Some False)
      | Num m \<Rightarrow>
          (case b of
             Host h \<Rightarrow> None
           | Num k \<Rightarrow> if exact_number m \<and> exact_number k then Some (num_eq m k) else None
           | _ \<Rightarrow> Some False)
      | Bool p \<Rightarrow> (case b of Host h \<Rightarrow> None | Bool q \<Rightarrow> Some (p = q) | _ \<Rightarrow> Some False)
      | Str s \<Rightarrow> (case b of Host h \<Rightarrow> None | Str t \<Rightarrow> Some (s = t) | _ \<Rightarrow> Some False)
      | Prim p \<Rightarrow> (case b of Host h \<Rightarrow> None | Prim q \<Rightarrow> Some (p = q) | _ \<Rightarrow> Some False)
      | EnvRef c \<Rightarrow> (case b of Host h \<Rightarrow> None | EnvRef d \<Rightarrow> Some (c = d) | _ \<Rightarrow> Some False)
      | Arr xs \<Rightarrow> (case b of Host h \<Rightarrow> None | Arr ys \<Rightarrow> None | _ \<Rightarrow> Some False)
      | Closure vs e c \<Rightarrow>
          (case b of Host h \<Rightarrow> None | Closure ws f d \<Rightarrow> None | _ \<Rightarrow> Some False)
      | StringLiteral s \<Rightarrow>
          (case b of Host h \<Rightarrow> None | StringLiteral t \<Rightarrow> None | _ \<Rightarrow> Some False))"

text \<open>Reading \<^verbatim>\<open>a.strvalue\<close>.\<close>

fun strvalue :: "val \<Rightarrow> error + val" where
  "strvalue (StringLiteral s) = Inr (Str s)"
| "strvalue Undefined = Inl TypeError"
| "strvalue (EnvRef a) = Inl Unmodelled"
| "strvalue (Host h) = Inl Unmodelled"
| "strvalue v = Inr Undefined"

definition is_StringLiteral :: "val \<Rightarrow> bool" where
  "is_StringLiteral v = (case v of StringLiteral s \<Rightarrow> True | _ \<Rightarrow> False)"

text \<open>The number of declared parameters of a native (\<^verbatim>\<open>f.length\<close>).\<close>

definition prim_arity :: "prim \<Rightarrow> nat" where
  "prim_arity p = (if p \<in> set [Not, Length, List, Car, Cdr] then 1 else 2)"

text \<open>
  \<^verbatim>\<open>
  var lisp_defaults = {
    '+': function(a, b) { return a + b; },
    '-': function(a, b) { return a - b; },
    '*': function(a, b) { return a * b; },
    '/': function(a, b) { return a / b; },
    '=': function(a, b) {
      if (a instanceof StringLiteral || b instanceof StringLiteral)
        return a.strvalue === b.strvalue;
      else
        return a === b;
    },
    '>': function(a, b) { return a > b; },
    '<': function(a, b) { return a < b; },
    'and': function(a, b) { return a && b; },
    'or': function(a, b) { return a || b; },
    'not': function(a) { return !a; },
    'length': function(a) { return a.length; },
    'list': function(a) { return Array.prototype.slice.call(arguments); },
    'car': function(a) { return a[0]; },
    'cdr': function(a) { return a.slice(1, a.length); },
    'cons': function(a, b) { return [a].concat(b); }
  }
  \<close>
  A parameter with no argument is \<^verbatim>\<open>undefined\<close>; arguments beyond the parameters are
  ignored (\<^verbatim>\<open>list\<close> takes them all). Arithmetic and order are modelled on exact
  numbers (arithmetic on finite ones, with an exact result), \<^verbatim>\<open>+\<close> also on two
  strings; on other operands the host converts or rounds, and a division by zero
  depends on the sign of the zero: \<open>Unmodelled\<close>.
\<close>

definition lisp_defaults :: "(string \<times> val) list" where
  "lisp_defaults =
     [(''+'', Prim Add), (''-'', Prim Sub), (''*'', Prim Mul), (''/'', Prim Div),
      (''='', Prim Eq), (''>'', Prim Gt), (''<'', Prim Lt), (''and'', Prim And),
      (''or'', Prim Or), (''not'', Prim Not), (''length'', Prim Length),
      (''list'', Prim List), (''car'', Prim Car), (''cdr'', Prim Cdr), (''cons'', Prim Cons)]"

definition arithmetic :: "prim \<Rightarrow> rat \<Rightarrow> rat \<Rightarrow> error + val" where
  "arithmetic p x y =
     (case (case p of
              Add \<Rightarrow> Some (x + y)
            | Sub \<Rightarrow> Some (x - y)
            | Mul \<Rightarrow> Some (x * y)
            | Div \<Rightarrow> if y = 0 then None else Some (x / y)
            | _ \<Rightarrow> None) of
        None \<Rightarrow> Inl Unmodelled
      | Some r \<Rightarrow> if exact_number (Fin r) then Inr (Num (Fin r)) else Inl Unmodelled)"

definition apply_binary :: "prim \<Rightarrow> val \<Rightarrow> val \<Rightarrow> error + val" where
  "apply_binary p a b =
     (case a of
        Num m \<Rightarrow>
          (case b of
             Num k \<Rightarrow>
               if \<not> (exact_number m \<and> exact_number k) then Inl Unmodelled
               else if p = Gt then Inr (Bool (num_lt k m))
               else if p = Lt then Inr (Bool (num_lt m k))
               else (case m of
                       Fin x \<Rightarrow> (case k of Fin y \<Rightarrow> arithmetic p x y | _ \<Rightarrow> Inl Unmodelled)
                     | _ \<Rightarrow> Inl Unmodelled)
           | _ \<Rightarrow> Inl Unmodelled)
      | Str s \<Rightarrow>
          (case b of
             Str t \<Rightarrow> if p = Add then Inr (Str (s @ t)) else Inl Unmodelled
           | _ \<Rightarrow> Inl Unmodelled)
      | _ \<Rightarrow> Inl Unmodelled)"

definition apply_prim :: "prim \<Rightarrow> val list \<Rightarrow> error + val" where
  "apply_prim p args =
     (let a = arg args 0; b = arg args 1 in
      case p of
        Eq \<Rightarrow>
          if is_StringLiteral a \<or> is_StringLiteral b then
            (case strvalue a of
               Inl e \<Rightarrow> Inl e
             | Inr sa \<Rightarrow> (case strvalue b of
                            Inl e \<Rightarrow> Inl e
                          | Inr sb \<Rightarrow> Inr (Bool (sa = sb))))
          else (case strict_eq a b of None \<Rightarrow> Inl Unmodelled | Some r \<Rightarrow> Inr (Bool r))
      | And \<Rightarrow> Inr (if truthy a then b else a)
      | Or \<Rightarrow> Inr (if truthy a then a else b)
      | Not \<Rightarrow> Inr (Bool (\<not> truthy a))
      | Length \<Rightarrow>
          (case a of
             Arr xs \<Rightarrow> Inr (Num (Fin (of_nat (length xs))))
           | Str s \<Rightarrow> Inr (Num (Fin (of_nat (length s))))
           | Closure vs e c \<Rightarrow> Inr (Num (Fin 0))
           | Prim q \<Rightarrow> Inr (Num (Fin (of_nat (prim_arity q))))
           | Undefined \<Rightarrow> Inl TypeError
           | EnvRef c \<Rightarrow> Inl Unmodelled
           | Host h \<Rightarrow> Inl Unmodelled
           | _ \<Rightarrow> Inr Undefined)
      | List \<Rightarrow> Inr (Arr args)
      | Car \<Rightarrow> index_val a 0
      | Cdr \<Rightarrow>
          (case a of
             Arr xs \<Rightarrow> Inr (Arr (drop 1 xs))
           | Str s \<Rightarrow> Inr (Str (drop 1 s))
           | EnvRef c \<Rightarrow> Inl Unmodelled
           | Host h \<Rightarrow> Inl Unmodelled
           | _ \<Rightarrow> Inl TypeError)
      | Cons \<Rightarrow> (case b of Arr ys \<Rightarrow> Inr (Arr (a # ys)) | _ \<Rightarrow> Inr (Arr [a, b]))
      | _ \<Rightarrow> apply_binary p a b)"

section \<open>Printing\<close>

text \<open>
  The decimal digits of a natural number, and the string of a number
  (\<^verbatim>\<open>''+tokens\<close>) where the model has it: the integers that binary64 holds exactly
  (up to \<open>2 ^ 53\<close> in size), \<^verbatim>\<open>NaN\<close> and the infinities.
\<close>

fun dec_nat :: "nat \<Rightarrow> string" where
  "dec_nat n =
     (if n < 10 then [char_of (48 + n)] else dec_nat (n div 10) @ [char_of (48 + n mod 10)])"

declare dec_nat.simps [simp del]

fun number_to_string :: "jsnum \<Rightarrow> string option" where
  "number_to_string NaN = Some ''NaN''"
| "number_to_string PosInf = Some ''Infinity''"
| "number_to_string NegInf = Some ''-Infinity''"
| "number_to_string (Fin q) =
     (if q = of_int \<lfloor>q\<rfloor> \<and> \<bar>q\<bar> \<le> 2 ^ 53
      then Some ((if q < 0 then ''-'' else []) @ dec_nat (nat \<bar>\<lfloor>q\<rfloor>\<bar>))
      else None)"

fun join_space :: "string list \<Rightarrow> string" where
  "join_space [] = []"
| "join_space [x] = x"
| "join_space (x # y # ys) = x @ '' '' @ join_space (y # ys)"

text \<open>
  \<^verbatim>\<open>
  var lisp_string = function(tokens) {
    if (tokens instanceof Array)
      return '(' + tokens.map(lisp_string).join(' ') + ')';
    else if (tokens instanceof StringLiteral)
      return tokens.strvalue;
    else if (typeof(tokens) == 'function')
      return '#<function>';
    else if (typeof(tokens) == 'boolean')
      return tokens ? '#t' : '#f';
    else
      return ''+tokens;
  }
  \<close>
  \<open>None\<close> where the string of the value is outside the model.
\<close>

fun lisp_string :: "val \<Rightarrow> string option" where
  "lisp_string (Arr xs) =
     (let rs = map lisp_string xs in
      if list_all (\<lambda>r. r \<noteq> None) rs then Some (''('' @ join_space (map the rs) @ '')'')
      else None)"
| "lisp_string (StringLiteral s) = Some s"
| "lisp_string (Prim p) = Some ''#<function>''"
| "lisp_string (Closure vs e a) = Some ''#<function>''"
| "lisp_string (Bool b) = Some (if b then ''#t'' else ''#f'')"
| "lisp_string (Str s) = Some s"
| "lisp_string (Num n) = number_to_string n"
| "lisp_string Undefined = Some ''undefined''"
| "lisp_string (EnvRef a) = None"
| "lisp_string (Host h) = None"

section \<open>The evaluator\<close>

text \<open>
  The loops of \<^verbatim>\<open>_eval\<close>, over the evaluator \<open>ev\<close> they call back. All thread the
  store from one call to the next and stop at the first error.

  \<open>eval_each\<close> is \<^verbatim>\<open>x.map(function(e) { return _eval(e, env); })\<close>.
\<close>

type_synonym evaluator = "val \<Rightarrow> addr \<Rightarrow> store \<Rightarrow> error + (val \<times> store)"

fun eval_each :: "evaluator \<Rightarrow> val list \<Rightarrow> addr \<Rightarrow> store \<Rightarrow> error + (val list \<times> store)" where
  "eval_each ev [] env s = Inr ([], s)"
| "eval_each ev (e # es) env s =
     (case ev e env s of
        Inl err \<Rightarrow> Inl err
      | Inr (v, s1) \<Rightarrow>
          (case eval_each ev es env s1 of
             Inl err \<Rightarrow> Inl err
           | Inr (vs, s2) \<Rightarrow> Inr (v # vs, s2)))"

text \<open>
  \<^verbatim>\<open>
  var retval;
  for (var i = 1; i < x.length; i++) {
    retval = _eval(x[i], env);
  }
  return retval;
  \<close>
\<close>

fun begin_loop :: "evaluator \<Rightarrow> val list \<Rightarrow> addr \<Rightarrow> store \<Rightarrow> val \<Rightarrow> error + (val \<times> store)" where
  "begin_loop ev [] env s retval = Inr (retval, s)"
| "begin_loop ev (e # es) env s retval =
     (case ev e env s of
        Inl err \<Rightarrow> Inl err
      | Inr (v, s1) \<Rightarrow> begin_loop ev es env s1 v)"

text \<open>
  \<^verbatim>\<open>x[i][0] == 'else'\<close>: loose equality with a string. It holds for the string
  itself, and for an array of one element whose string is \<^verbatim>\<open>else\<close> (an array is
  compared through its string, its elements joined by commas). No other value of the
  model has that string.
\<close>

fun loose_eq_else :: "val \<Rightarrow> bool" where
  "loose_eq_else (Str s) = (s = ''else'')"
| "loose_eq_else (Arr [w]) = loose_eq_else w"
| "loose_eq_else v = False"

text \<open>
  \<^verbatim>\<open>
  var retval;
  for (var i = 1; i < x.length; i++) {
    if (x[i][0] == undefined || x[i][1] == undefined) {
      throw new SyntaxError('wrong use of cond statement');
    }
    if (x[i][0] == 'else' && i != x.length - 1)
      throw new SyntaxError('unexpected `else` statement');
    if (_eval(x[i][0], env)) {
      retval = x[i][1];
      break;
    }
  }
  return retval;
  \<close>
  The list is the clauses from \<open>x[i]\<close> on; the clause is the last one when no clause
  follows it.
\<close>

fun cond_loop :: "evaluator \<Rightarrow> val list \<Rightarrow> addr \<Rightarrow> store \<Rightarrow> error + (val \<times> store)" where
  "cond_loop ev [] env s = Inr (Undefined, s)"
| "cond_loop ev (c # cs) env s =
     (case index_val c 0 of
        Inl err \<Rightarrow> Inl err
      | Inr test \<Rightarrow>
          if test = Undefined then Inl (SyntaxError ''wrong use of cond statement'')
          else (case index_val c 1 of
                  Inl err \<Rightarrow> Inl err
                | Inr conseq \<Rightarrow>
                    if conseq = Undefined then Inl (SyntaxError ''wrong use of cond statement'')
                    else if loose_eq_else test \<and> cs \<noteq> []
                    then Inl (SyntaxError ''unexpected `else` statement'')
                    else (case ev test env s of
                            Inl err \<Rightarrow> Inl err
                          | Inr (t, s1) \<Rightarrow>
                              if truthy t then Inr (conseq, s1) else cond_loop ev cs env s1)))"

text \<open>
  \<^verbatim>\<open>
  var proc = expressions.shift();
  var res = proc.apply(null, expressions);
  return res;
  \<close>
  A native is applied to the arguments. The function object of a \<^verbatim>\<open>lambda\<close> is
  \<^verbatim>\<open>function() { return _eval(expression, new Env(variables, arguments, env)); }\<close>:
  a new \<^verbatim>\<open>Env\<close> goes to the end of the store, its parent the captured \<^verbatim>\<open>env\<close>, and
  the expression is evaluated in it. A value that is not a function has no
  \<^verbatim>\<open>apply\<close>: a \<^verbatim>\<open>TypeError\<close>, as is \<^verbatim>\<open>shift\<close> on no expressions at all.
\<close>

definition apply_proc :: "evaluator \<Rightarrow> val list \<Rightarrow> store \<Rightarrow> error + (val \<times> store)" where
  "apply_proc ev expressions s =
     (case arg expressions 0 of
        Prim p \<Rightarrow>
          (case apply_prim p (drop 1 expressions) of Inl e \<Rightarrow> Inl e | Inr v \<Rightarrow> Inr (v, s))
      | Closure variables expression env \<Rightarrow>
          (case new_Env variables (Some (drop 1 expressions)) (EnvRef env) of
             Inl e \<Rightarrow> Inl e
           | Inr ob \<Rightarrow> ev expression (length s) (s @ [ob]))
      | EnvRef a \<Rightarrow> Inl Unmodelled
      | Host h \<Rightarrow> Inl Unmodelled
      | _ \<Rightarrow> Inl TypeError)"

text \<open>
  \<^verbatim>\<open>_eval(x, env)\<close>, with fuel: every call of \<^verbatim>\<open>_eval\<close> takes one unit, and a call
  with none left ends in \<open>OutOfFuel\<close>. The environment is an address into the store;
  the result is the value and the store after the call. A caller that passes no
  environment gets \<^verbatim>\<open>global_env\<close> (\<^verbatim>\<open>env = env || global_env\<close>): in the model it
  passes the address \<open>global_env\<close>. The branches are those of the source, in its
  order; \<^verbatim>\<open>set!\<close> and \<^verbatim>\<open>define\<close> end without \<^verbatim>\<open>return\<close>, so the call gives
  \<^verbatim>\<open>undefined\<close>. In \<^verbatim>\<open>env.find(variable)[variable] = _eval(expression, env)\<close> the
  host evaluates the left side, the call of \<^verbatim>\<open>find\<close>, before the right side.
\<close>

primrec s_eval :: "nat \<Rightarrow> val \<Rightarrow> addr \<Rightarrow> store \<Rightarrow> error + (val \<times> store)" where
  "s_eval 0 x env s = Inl OutOfFuel"
| "s_eval (Suc n) x env s =
     (case x of
        Str name \<Rightarrow>
          (case Env_find s env x of
             Inl e \<Rightarrow> Inl e
           | Inr a \<Rightarrow> Inr (get_prop (s ! a) name, s))
      | Arr xs \<Rightarrow>
          if arg xs 0 = Str ''quote'' then
            (if arg xs 1 = Undefined then Inl (SyntaxError ''quote needs an argument'')
             else (case arg xs 1 of
                     Arr literal \<Rightarrow> Inr (Arr literal, s)
                   | literal \<Rightarrow>
                       (case lisp_string literal of
                          None \<Rightarrow> Inl Unmodelled
                        | Some str \<Rightarrow> Inr (StringLiteral str, s))))
          else if arg xs 0 = Str ''if'' then
            (if arg xs 1 = Undefined \<or> arg xs 2 = Undefined \<or> arg xs 3 = Undefined
             then Inl (SyntaxError ''if takes three arguments'')
             else (case s_eval n (arg xs 1) env s of
                     Inl e \<Rightarrow> Inl e
                   | Inr (test, s1) \<Rightarrow>
                       s_eval n (if truthy test then arg xs 2 else arg xs 3) env s1))
          else if arg xs 0 = Str ''cond'' then cond_loop (s_eval n) (drop 1 xs) env s
          else if arg xs 0 = Str ''set!'' then
            (if arg xs 1 = Undefined \<or> arg xs 2 = Undefined
             then Inl (SyntaxError ''set! takes two arguments'')
             else (case Env_find s env (arg xs 1) of
                     Inl e \<Rightarrow> Inl e
                   | Inr a \<Rightarrow>
                       (case s_eval n (arg xs 2) env s of
                          Inl e \<Rightarrow> Inl e
                        | Inr (v, s1) \<Rightarrow>
                            (case put a (arg xs 1) v s1 of
                               Inl e \<Rightarrow> Inl e
                             | Inr s2 \<Rightarrow> Inr (Undefined, s2)))))
          else if arg xs 0 = Str ''define'' then
            (if arg xs 1 = Undefined \<or> arg xs 2 = Undefined
             then Inl (SyntaxError ''define takes two arguments'')
             else (case s_eval n (arg xs 2) env s of
                     Inl e \<Rightarrow> Inl e
                   | Inr (v, s1) \<Rightarrow>
                       (case put env (arg xs 1) v s1 of
                          Inl e \<Rightarrow> Inl e
                        | Inr s2 \<Rightarrow> Inr (Undefined, s2))))
          else if arg xs 0 = Str ''lambda'' then
            (if arg xs 1 = Undefined \<or> arg xs 2 = Undefined
             then Inl (SyntaxError ''lambda definition takes two arguments'')
             else Inr (Closure (arg xs 1) (arg xs 2) env, s))
          else if arg xs 0 = Str ''begin'' then begin_loop (s_eval n) (drop 1 xs) env s Undefined
          else (case eval_each (s_eval n) xs env s of
                  Inl e \<Rightarrow> Inl e
                | Inr (expressions, s1) \<Rightarrow> apply_proc (s_eval n) expressions s1)
      | _ \<Rightarrow> Inr (x, s))"

section \<open>The global environment\<close>

text \<open>
  \<^verbatim>\<open>
  var lisp_extra = [
    '(define else #t)',
    '(define >= (lambda (x y) (not (< x y))))',
    '(define <= (lambda (x y) (not (> x y))))',
    '(define head car)',
    '(define tail cdr)',
    '(define null? (lambda (l) (= 0 (length l))))',
    '(define map (lambda (f l) (if (null? l) l (cons (f (car l)) (map f (cdr l))))))'
  ];

  var global_env = new Env();
  global_env.insert(lisp_defaults);
  lisp_extra.map(function(def) {
    _eval(parse(def), global_env);
  });
  \<close>
  The global environment is the first object of the store. Each definition of
  \<^verbatim>\<open>lisp_extra\<close> evaluates a symbol or a \<^verbatim>\<open>lambda\<close> under a \<^verbatim>\<open>define\<close>, three nested
  calls of \<^verbatim>\<open>_eval\<close> at most, so fuel 3 is enough for it.
\<close>

definition lisp_extra :: "string list" where
  "lisp_extra =
     [''(define else #t)'',
      ''(define >= (lambda (x y) (not (< x y))))'',
      ''(define <= (lambda (x y) (not (> x y))))'',
      ''(define head car)'',
      ''(define tail cdr)'',
      ''(define null? (lambda (l) (= 0 (length l))))'',
      ''(define map (lambda (f l) (if (null? l) l (cons (f (car l)) (map f (cdr l))))))'']"

definition global_env :: addr where
  "global_env = 0"

text \<open>\<^verbatim>\<open>_eval(parse(input), env)\<close>.\<close>

definition eval_parse :: "nat \<Rightarrow> string \<Rightarrow> addr \<Rightarrow> store \<Rightarrow> error + (val \<times> store)" where
  "eval_parse n input env s =
     (case parse input of Inl e \<Rightarrow> Inl e | Inr x \<Rightarrow> s_eval n x env s)"

fun eval_defs :: "string list \<Rightarrow> store \<Rightarrow> error + store" where
  "eval_defs [] s = Inr s"
| "eval_defs (d # ds) s =
     (case eval_parse 3 d global_env s of
        Inl e \<Rightarrow> Inl e
      | Inr (v, s1) \<Rightarrow> eval_defs ds s1)"

definition global_store :: "error + store" where
  "global_store =
     (case new_Env Undefined None Undefined of
        Inl e \<Rightarrow> Inl e
      | Inr ob \<Rightarrow> (case Env_insert ob lisp_defaults of
                     Inl e \<Rightarrow> Inl e
                   | Inr ob' \<Rightarrow> eval_defs lisp_extra [ob']))"

section \<open>Reference notions for the claims\<close>

text \<open>
  A form as the spec describes it: an atom token, or a parenthesised sequence of forms.
  \<open>tokens_of\<close> writes a form as tokens, \<open>repr_of\<close> is the nested value the spec
  expects for it, and \<open>atoms_ok\<close> says that no atom is a parenthesis.
\<close>

datatype sexp = Atom string | SList "sexp list"

fun tokens_of :: "sexp \<Rightarrow> string list" where
  "tokens_of (Atom a) = [a]"
| "tokens_of (SList es) = ''('' # concat (map tokens_of es) @ ['')'']"

fun repr_of :: "sexp \<Rightarrow> val" where
  "repr_of (Atom a) = atom a"
| "repr_of (SList es) = Arr (map repr_of es)"

fun atoms_ok :: "sexp \<Rightarrow> bool" where
  "atoms_ok (Atom a) = (a \<noteq> ''('' \<and> a \<noteq> '')'')"
| "atoms_ok (SList es) = list_all atoms_ok es"

text \<open>
  An input with no tokens, in the spec's words: outside a comment only white space,
  a comment from a \<^verbatim>\<open>;\<close> to the next line feed or to the end of the input. The flag
  says whether the scan is inside a comment.
\<close>

fun blank_or_comments :: "bool \<Rightarrow> string \<Rightarrow> bool" where
  "blank_or_comments in_comment [] = True"
| "blank_or_comments in_comment (c # cs) =
     (if in_comment then blank_or_comments (c \<noteq> CHR 0x0A) cs
      else if c = CHR '';'' then blank_or_comments True cs
      else is_ws c \<and> blank_or_comments False cs)"

text \<open>
  The object the set-up leaves as the global environment, written out: the natives of
  \<^verbatim>\<open>lisp_defaults\<close>, then the definitions of \<^verbatim>\<open>lisp_extra\<close>, their closures
  capturing the global environment itself.
\<close>

definition global_object :: obj where
  "global_object =
     [(''_parent'', Undefined), (''+'', Prim Add), (''-'', Prim Sub), (''*'', Prim Mul),
      (''/'', Prim Div), (''='', Prim Eq), (''>'', Prim Gt), (''<'', Prim Lt),
      (''and'', Prim And), (''or'', Prim Or), (''not'', Prim Not), (''length'', Prim Length),
      (''list'', Prim List), (''car'', Prim Car), (''cdr'', Prim Cdr), (''cons'', Prim Cons),
      (''else'', Bool True),
      (''>='', Closure (Arr [Str ''x'', Str ''y''])
                (Arr [Str ''not'', Arr [Str ''<'', Str ''x'', Str ''y'']]) 0),
      (''<='', Closure (Arr [Str ''x'', Str ''y''])
                (Arr [Str ''not'', Arr [Str ''>'', Str ''x'', Str ''y'']]) 0),
      (''head'', Prim Car), (''tail'', Prim Cdr),
      (''null?'', Closure (Arr [Str ''l''])
                   (Arr [Str ''='', Num (Fin 0), Arr [Str ''length'', Str ''l'']]) 0),
      (''map'', Closure (Arr [Str ''f'', Str ''l''])
                 (Arr [Str ''if'', Arr [Str ''null?'', Str ''l''], Str ''l'',
                    Arr [Str ''cons'', Arr [Str ''f'', Arr [Str ''car'', Str ''l'']],
                      Arr [Str ''map'', Str ''f'', Arr [Str ''cdr'', Str ''l'']]]]) 0)]"

text \<open>
  The order the spec gives for \<^verbatim>\<open>(set! NAME EXPR)\<close>: evaluate \<open>EXPR\<close> in the
  current environment, then find the scope that owns \<open>NAME\<close> and write the value
  there.
\<close>

definition set_as_claimed :: "nat \<Rightarrow> val \<Rightarrow> val \<Rightarrow> addr \<Rightarrow> store \<Rightarrow> error + (val \<times> store)" where
  "set_as_claimed n name expr env s =
     (case s_eval n expr env s of
        Inl e \<Rightarrow> Inl e
      | Inr (v, s1) \<Rightarrow>
          (case Env_find s1 env name of
             Inl e \<Rightarrow> Inl e
           | Inr a \<Rightarrow> (case put a name v s1 of
                          Inl e \<Rightarrow> Inl e
                        | Inr s2 \<Rightarrow> Inr (Undefined, s2))))"

text \<open>
  The parameter names paired with the argument values by position; a parameter with no
  argument is paired with \<^verbatim>\<open>undefined\<close>, an argument with no parameter is left out.
\<close>

definition positional :: "string list \<Rightarrow> val list \<Rightarrow> (string \<times> val) list" where
  "positional names args = zip names (map (arg args) [0 ..< length names])"

text \<open>The head of a list that none of the special forms of \<^verbatim>\<open>_eval\<close> takes.\<close>

definition application_head :: "val \<Rightarrow> bool" where
  "application_head f =
     (f \<notin> Str ` {''quote'', ''if'', ''cond'', ''set!'', ''define'', ''lambda'', ''begin''})"

section \<open>The reader\<close>

lemma tokens_of_not_close: "atoms_ok e \<Longrightarrow> take 1 (tokens_of e @ r) \<noteq> ['')'']"
  by (cases e) auto

lemma read_list_close: "read_list l ('')'' # r) = Inr (Arr l, r)"
  by (simp add: read_list.simps)

lemma read_list_step:
  "take 1 ts \<noteq> ['')''] \<Longrightarrow> nested_repr ts = Inr (v, r) \<Longrightarrow>
     read_list l ts = read_list (l @ [v]) r"
  by (subst read_list.simps) simp

lemma read_list_forms:
  assumes "\<And>e r. e \<in> set es \<Longrightarrow> atoms_ok e \<Longrightarrow>
             nested_repr (tokens_of e @ r) = Inr (repr_of e, r)"
    and "list_all atoms_ok es"
  shows "read_list l (concat (map tokens_of es) @ '')'' # r) = Inr (Arr (l @ map repr_of es), r)"
  using assms
proof (induction es arbitrary: l)
  case Nil
  then show ?case by (simp add: read_list_close)
next
  case (Cons e es)
  have ok: "atoms_ok e" using Cons.prems(2) by simp
  have "read_list l (tokens_of e @ (concat (map tokens_of es) @ '')'' # r))
          = read_list (l @ [repr_of e]) (concat (map tokens_of es) @ '')'' # r)"
    by (rule read_list_step [OF tokens_of_not_close [OF ok]]) (simp add: Cons.prems(1) ok)
  also have "\<dots> = Inr (Arr ((l @ [repr_of e]) @ map repr_of es), r)"
    using Cons.prems by (intro Cons.IH) auto
  finally show ?case by simp
qed

lemma nested_repr_form:
  "atoms_ok e \<Longrightarrow> nested_repr (tokens_of e @ r) = Inr (repr_of e, r)"
proof (induction e arbitrary: r)
  case (Atom a)
  then show ?case by (simp add: nested_repr.simps)
next
  case (SList es)
  have "nested_repr (tokens_of (SList es) @ r)
          = read_list [] (concat (map tokens_of es) @ '')'' # r)"
    by (simp add: nested_repr.simps)
  also have "\<dots> = Inr (Arr ([] @ map repr_of es), r)"
    using SList by (intro read_list_forms) auto
  finally show ?case by simp
qed

section \<open>The tokenizer on blank input\<close>

lemma non_space_runs_Nil: "non_space_runs cur xs = [] \<longleftrightarrow> cur = [] \<and> list_all is_ws xs"
  by (induction cur xs rule: non_space_runs.induct) auto

lemma blank_pad_parens: "blank_or_comments b s \<Longrightarrow> blank_or_comments b (pad_parens s)"
proof (induction s arbitrary: b)
  case Nil
  then show ?case by (simp add: pad_parens_def)
next
  case (Cons c cs)
  then show ?case
    by (cases b) (auto simp: pad_parens_def is_ws_def split: if_splits)
qed

lemma comment_end_blank:
  "comment_end cs = Some r \<Longrightarrow> blank_or_comments True cs \<Longrightarrow> blank_or_comments False r"
  by (induction cs) (auto split: if_splits)

lemma blank_strip_comments:
  "blank_or_comments False t \<Longrightarrow> list_all is_ws (until_semicolon (strip_comments t))"
proof (induction t rule: strip_comments.induct)
  case 1
  then show ?case by (simp add: until_semicolon_def)
next
  case (2 c cs)
  show ?case
  proof (cases "c = CHR '';''")
    case True
    show ?thesis
    proof (cases "comment_end cs")
      case None
      with True show ?thesis by (simp add: until_semicolon_def)
    next
      case (Some r)
      from "2.prems" True have "blank_or_comments True cs" by simp
      with Some have "blank_or_comments False r" by (rule comment_end_blank)
      with "2.IH"(2) [OF True Some]
      have "list_all is_ws (until_semicolon (strip_comments r))" .
      moreover have "is_ws CHR '' ''" by (simp add: is_ws_def)
      ultimately show ?thesis using True Some by (simp add: until_semicolon_def)
    qed
  next
    case False
    with "2.prems" have "is_ws c" "blank_or_comments False cs" by simp_all
    with "2.IH"(3) [OF False] False show ?thesis by (simp add: until_semicolon_def)
  qed
qed

lemma blank_tokenize: "blank_or_comments False s \<Longrightarrow> tokenize s = None"
proof -
  assume "blank_or_comments False s"
  then have "list_all is_ws (until_semicolon (strip_comments (pad_parens s)))"
    by (intro blank_strip_comments blank_pad_parens)
  then have "non_space_runs [] (until_semicolon (strip_comments (pad_parens s))) = []"
    by (simp add: non_space_runs_Nil)
  then show ?thesis by (simp add: tokenize_def)
qed

lemma tokenize_not_empty: "tokenize s \<noteq> Some []"
  by (simp add: tokenize_def split: list.splits)

lemma parse_null: "tokenize s = None \<Longrightarrow> parse s = Inl TypeError"
  by (simp add: parse_def)

section \<open>Number tokens\<close>

lemma atom_number:
  "\<not> isNaN_string token \<Longrightarrow>
     atom token = Num (if num_eq (parseFloat token) (parseInt token)
                       then parseInt token else parseFloat token)"
  by (cases "parseInt token") (simp_all add: atom_def Let_def)

lemma atom_not_number: "isNaN_string token \<Longrightarrow> atom token \<noteq> Num n"
  by (simp add: atom_def Let_def)

lemmas number_defs =
  parseInt_def parseFloat_def isNaN_string_def str_decimal_def is_ws_def is_digit_def
  digit_of_def digits_val_def exponent_part_def scale10_def nondecimal_literal_def

lemmas tokenize_defs =
  tokenize_def pad_parens_def until_semicolon_def is_ws_def is_line_terminator_def

lemma atom_0_0: "atom ''0.0'' = Num (Fin 0)"
  by (simp add: atom_def number_defs)

lemma atom_0: "atom ''0'' = Num (Fin 0)"
  by (simp add: atom_def number_defs)

section \<open>The global environment, evaluated\<close>

lemmas parse_defs =
  parse_def tokenize_defs nested_repr.simps read_list.simps atom_def number_defs

lemmas env_defs =
  new_Env_def set_prop_def put_def arg_def get_prop_def inherited_names_def

lemma parse_lisp_extra:
  "parse ''(define else #t)'' = Inr (Arr [Str ''define'', Str ''else'', Bool True])"
  "parse ''(define >= (lambda (x y) (not (< x y))))'' =
     Inr (Arr [Str ''define'', Str ''>='', Arr [Str ''lambda'', Arr [Str ''x'', Str ''y''],
       Arr [Str ''not'', Arr [Str ''<'', Str ''x'', Str ''y'']]]])"
  "parse ''(define <= (lambda (x y) (not (> x y))))'' =
     Inr (Arr [Str ''define'', Str ''<='', Arr [Str ''lambda'', Arr [Str ''x'', Str ''y''],
       Arr [Str ''not'', Arr [Str ''>'', Str ''x'', Str ''y'']]]])"
  "parse ''(define head car)'' = Inr (Arr [Str ''define'', Str ''head'', Str ''car''])"
  "parse ''(define tail cdr)'' = Inr (Arr [Str ''define'', Str ''tail'', Str ''cdr''])"
  "parse ''(define null? (lambda (l) (= 0 (length l))))'' =
     Inr (Arr [Str ''define'', Str ''null?'', Arr [Str ''lambda'', Arr [Str ''l''],
       Arr [Str ''='', Num (Fin 0), Arr [Str ''length'', Str ''l'']]]])"
  "parse ''(define map (lambda (f l) (if (null? l) l (cons (f (car l)) (map f (cdr l))))))'' =
     Inr (Arr [Str ''define'', Str ''map'', Arr [Str ''lambda'', Arr [Str ''f'', Str ''l''],
       Arr [Str ''if'', Arr [Str ''null?'', Str ''l''], Str ''l'',
         Arr [Str ''cons'', Arr [Str ''f'', Arr [Str ''car'', Str ''l'']],
           Arr [Str ''map'', Str ''f'', Arr [Str ''cdr'', Str ''l'']]]]]])"
  by (simp_all add: parse_defs)

lemma global_store_value: "global_store = Inr [global_object]"
  unfolding global_store_def lisp_extra_def lisp_defaults_def global_object_def
  by (simp add: eval_parse_def parse_lisp_extra global_env_def env_defs Env_find.simps
        numeral_3_eq_3)

section \<open>Evaluation of the special forms\<close>

lemma if_operand_missing:
  "length operands < 3 \<Longrightarrow>
     s_eval (Suc n) (Arr (Str ''if'' # operands)) env s
       = Inl (SyntaxError ''if takes three arguments'')"
  by (simp add: arg_def)

lemma Env_find_Inr:
  "Env_find s env name = Inr a \<Longrightarrow> a < length s \<and> (\<exists>k. name = Str k)"
proof (induction s env name rule: Env_find.induct)
  case (1 s this variable)
  then show ?case
    by (subst (asm) (2) Env_find.simps)
       (auto split: if_splits option.splits val.splits elim: prop_key.elims)
qed

lemma put_Str:
  "a < length s \<Longrightarrow> k \<noteq> ''__proto__'' \<Longrightarrow>
     put a (Str k) v s = Inr (s[a := AList.update k v (s ! a)])"
  by (simp add: put_def set_prop_def)

lemma put_length: "put a key v s = Inr s' \<Longrightarrow> length s' = length s"
  by (auto simp: put_def split: if_splits option.splits sum.splits)

text \<open>The store only grows: a call of the evaluator never removes an object.\<close>

lemma eval_each_grows:
  assumes "\<And>x env s v s'. ev x env s = Inr (v, s') \<Longrightarrow> length s \<le> length s'"
  shows "eval_each ev xs env s = Inr (vs, s') \<Longrightarrow> length s \<le> length s'"
proof (induction xs arbitrary: s vs s')
  case Nil
  then show ?case by simp
next
  case (Cons x xs)
  from Cons.prems obtain v s1 ws where
    a: "ev x env s = Inr (v, s1)" and b: "eval_each ev xs env s1 = Inr (ws, s')"
    by (auto split: sum.splits)
  from assms [OF a] Cons.IH [OF b] show ?case by simp
qed

lemma begin_loop_grows:
  assumes "\<And>x env s v s'. ev x env s = Inr (v, s') \<Longrightarrow> length s \<le> length s'"
  shows "begin_loop ev xs env s r = Inr (v, s') \<Longrightarrow> length s \<le> length s'"
proof (induction xs arbitrary: s r)
  case Nil
  then show ?case by simp
next
  case (Cons x xs)
  from Cons.prems obtain w s1 where
    a: "ev x env s = Inr (w, s1)" and b: "begin_loop ev xs env s1 w = Inr (v, s')"
    by (auto split: sum.splits)
  from assms [OF a] Cons.IH [OF b] show ?case by simp
qed

lemma cond_loop_grows:
  assumes "\<And>x env s v s'. ev x env s = Inr (v, s') \<Longrightarrow> length s \<le> length s'"
  shows "cond_loop ev cs env s = Inr (v, s') \<Longrightarrow> length s \<le> length s'"
proof (induction cs arbitrary: s)
  case Nil
  then show ?case by simp
next
  case (Cons c cs)
  from Cons.prems obtain test t s1 where
    a: "ev test env s = Inr (t, s1)"
    and b: "(truthy t \<and> s' = s1) \<or> (\<not> truthy t \<and> cond_loop ev cs env s1 = Inr (v, s'))"
    by (auto split: sum.splits if_splits)
  from b assms [OF a] Cons.IH [of s1] show ?case by auto
qed

lemma apply_proc_grows:
  assumes "\<And>x env s v s'. ev x env s = Inr (v, s') \<Longrightarrow> length s \<le> length s'"
  shows "apply_proc ev es s = Inr (v, s') \<Longrightarrow> length s \<le> length s'"
proof -
  assume r: "apply_proc ev es s = Inr (v, s')"
  show ?thesis
  proof (cases "arg es 0")
    case (Prim p)
    with r show ?thesis by (auto simp: apply_proc_def split: sum.splits)
  next
    case (Closure vs e c)
    with r obtain ob where "ev e (length s) (s @ [ob]) = Inr (v, s')"
      by (auto simp: apply_proc_def split: sum.splits)
    from assms [OF this] show ?thesis by simp
  qed (use r in \<open>auto simp: apply_proc_def\<close>)
qed

lemma s_eval_grows: "s_eval n x env s = Inr (v, s') \<Longrightarrow> length s \<le> length s'"
proof (induction n arbitrary: x env s v s')
  case 0
  then show ?case by simp
next
  case (Suc n)
  note ih = Suc.IH
  show ?case
  proof (cases x)
    case (Str name)
    with Suc.prems show ?thesis by (auto split: sum.splits)
  next
    case (Arr xs)
    consider (c_quote) "arg xs 0 = Str ''quote''" | (c_if) "arg xs 0 = Str ''if''"
      | (c_cond) "arg xs 0 = Str ''cond''" | (c_set) "arg xs 0 = Str ''set!''"
      | (c_define) "arg xs 0 = Str ''define''" | (c_lambda) "arg xs 0 = Str ''lambda''"
      | (c_begin) "arg xs 0 = Str ''begin''"
      | (c_app) "arg xs 0 \<notin> Str ` {''quote'', ''if'', ''cond'', ''set!'', ''define'', ''lambda'', ''begin''}"
      by auto
    then show ?thesis
    proof cases
      case c_quote
      with Suc.prems Arr show ?thesis
        by (auto split: if_splits val.splits option.splits)
    next
      case c_if
      with Suc.prems Arr obtain t s1 e where
        "s_eval n (arg xs 1) env s = Inr (t, s1)" "s_eval n e env s1 = Inr (v, s')"
        by (auto split: if_splits sum.splits)
      from ih [OF this(1)] ih [OF this(2)] show ?thesis by simp
    next
      case c_cond
      with Suc.prems Arr have "cond_loop (s_eval n) (drop 1 xs) env s = Inr (v, s')" by simp
      then show ?thesis by (rule cond_loop_grows [rotated]) (rule ih)
    next
      case c_set
      with Suc.prems Arr obtain a w s1 where
        "s_eval n (arg xs 2) env s = Inr (w, s1)" "put a (arg xs 1) w s1 = Inr s'"
        by (auto split: if_splits sum.splits)
      from ih [OF this(1)] put_length [OF this(2)] show ?thesis by simp
    next
      case c_define
      with Suc.prems Arr obtain w s1 where
        "s_eval n (arg xs 2) env s = Inr (w, s1)" "put env (arg xs 1) w s1 = Inr s'"
        by (auto split: if_splits sum.splits)
      from ih [OF this(1)] put_length [OF this(2)] show ?thesis by simp
    next
      case c_lambda
      with Suc.prems Arr show ?thesis by (auto split: if_splits)
    next
      case c_begin
      with Suc.prems Arr have "begin_loop (s_eval n) (drop 1 xs) env s Undefined = Inr (v, s')"
        by simp
      then show ?thesis by (rule begin_loop_grows [rotated]) (rule ih)
    next
      case c_app
      with Suc.prems Arr obtain es s1 where
        a: "eval_each (s_eval n) xs env s = Inr (es, s1)"
        and b: "apply_proc (s_eval n) es s1 = Inr (v, s')"
        by (auto split: sum.splits)
      have "length s \<le> length s1" using a by (rule eval_each_grows [rotated]) (rule ih)
      moreover have "length s1 \<le> length s'" using b by (rule apply_proc_grows [rotated]) (rule ih)
      ultimately show ?thesis by simp
    qed
  qed (use Suc.prems in auto)
qed

lemma define_value:
  "s_eval (Suc n) (Arr (Str ''define'' # rest)) env s = Inr (v, s') \<Longrightarrow> v = Undefined"
  by (auto simp: arg_def split: if_splits sum.splits)

lemma set_value:
  "s_eval (Suc n) (Arr (Str ''set!'' # rest)) env s = Inr (v, s') \<Longrightarrow> v = Undefined"
  by (auto simp: arg_def split: if_splits sum.splits)

lemma define_returns:
  assumes "expr \<noteq> Undefined" "s_eval n expr env s = Inr (w, s1)"
    and "env < length s" "k \<noteq> ''__proto__''"
  shows "s_eval (Suc n) (Arr [Str ''define'', Str k, expr]) env s
           = Inr (Undefined, s1[env := AList.update k w (s1 ! env)])"
proof -
  from s_eval_grows [OF assms(2)] assms(3) have "env < length s1" by simp
  with assms show ?thesis by (simp add: arg_def put_Str)
qed

lemma set_fails:
  "name \<noteq> Undefined \<Longrightarrow> expr \<noteq> Undefined \<Longrightarrow> Env_find s env name = Inl e \<Longrightarrow>
     s_eval (Suc n) (Arr [Str ''set!'', name, expr]) env s = Inl e"
  by (simp add: arg_def)

lemma set_returns:
  assumes "expr \<noteq> Undefined" "Env_find s env (Str k) = Inr a"
    and "s_eval n expr env s = Inr (w, s1)" "k \<noteq> ''__proto__''"
  shows "s_eval (Suc n) (Arr [Str ''set!'', Str k, expr]) env s
           = Inr (Undefined, s1[a := AList.update k w (s1 ! a)])"
proof -
  from Env_find_Inr [OF assms(2)] s_eval_grows [OF assms(3)] have "a < length s1" by simp
  with assms show ?thesis by (simp add: arg_def put_Str)
qed

section \<open>The environment of a call\<close>

lemma lambda_captures:
  "s_eval (Suc n) (Arr [Str ''lambda'', params, body]) env s =
     (if params = Undefined \<or> body = Undefined
      then Inl (SyntaxError ''lambda definition takes two arguments'')
      else Inr (Closure params body env, s))"
  by (simp add: arg_def)

lemma bind_keys_positional:
  assumes "''__proto__'' \<notin> set names"
  shows "\<exists>ob. bind_keys this (map Str names) args i = Inr ob \<and>
           map_of ob = map_of this ++
             map_of (rev (zip names (map (arg args) [i ..< i + length names])))"
  using assms
proof (induction names arbitrary: this i)
  case Nil
  then show ?case by simp
next
  case (Cons k ks)
  let ?upd = "AList.update k (arg args i) this"
  from Cons.prems have "''__proto__'' \<notin> set ks" and k: "k \<noteq> ''__proto__''" by auto
  from Cons.IH [OF this(1), of ?upd "Suc i"] obtain ob where
    b: "bind_keys ?upd (map Str ks) args (Suc i) = Inr ob"
    and m: "map_of ob = map_of ?upd ++
              map_of (rev (zip ks (map (arg args) [Suc i ..< Suc i + length ks])))"
    by blast
  have "bind_keys this (map Str (k # ks)) args i = Inr ob"
    using b k by (simp add: set_prop_def)
  moreover have "[i ..< i + length (k # ks)] = i # [Suc i ..< Suc i + length ks]"
    by (subst upt_rec) (simp del: upt_Suc)
  then have "map_of (rev (zip (k # ks) (map (arg args) [i ..< i + length (k # ks)])))
      = [k \<mapsto> arg args i] ++
          map_of (rev (zip ks (map (arg args) [Suc i ..< Suc i + length ks])))"
    by (simp del: upt_Suc)
  then have "map_of ob = map_of this ++
      map_of (rev (zip (k # ks) (map (arg args) [i ..< i + length (k # ks)])))"
    using m by (simp add: update_conv' del: upt_Suc)
  ultimately show ?case by blast
qed

lemma new_Env_positional:
  assumes "''__proto__'' \<notin> set names"
  shows "\<exists>ob. new_Env (Arr (map Str names)) (Some args) (EnvRef cenv) = Inr ob \<and>
           map_of ob = (map_of (rev (positional names args)))(''_parent'' \<mapsto> EnvRef cenv)"
proof -
  from bind_keys_positional [OF assms, of "[]" args 0] obtain ob where
    b: "bind_keys [] (map Str names) args 0 = Inr ob"
    and m: "map_of ob = map_of (rev (positional names args))"
    by (auto simp: positional_def)
  have "new_Env (Arr (map Str names)) (Some args) (EnvRef cenv)
          = Inr (AList.update ''_parent'' (EnvRef cenv) ob)"
    using b by (simp add: new_Env_def)
  moreover have "map_of (AList.update ''_parent'' (EnvRef cenv) ob)
                   = (map_of (rev (positional names args)))(''_parent'' \<mapsto> EnvRef cenv)"
    using m by (simp add: update_conv')
  ultimately show ?thesis by blast
qed

lemma new_Env_parent:
  "new_Env vars values (EnvRef cenv) = Inr ob \<Longrightarrow> map_of ob ''_parent'' = Some (EnvRef cenv)"
  by (auto simp: new_Env_def update_conv' split: sum.splits)

lemma application_call:
  assumes "application_head f"
    and "eval_each (s_eval n) (f # es) env s = Inr (Closure vars body cenv # args, s1)"
  shows "s_eval (Suc n) (Arr (f # es)) env s =
           (case new_Env vars (Some args) (EnvRef cenv) of
              Inl e \<Rightarrow> Inl e
            | Inr ob \<Rightarrow> s_eval n body (length s1) (s1 @ [ob]))"
proof -
  from assms(1) have "arg (f # es) 0 \<notin>
      Str ` {''quote'', ''if'', ''cond'', ''set!'', ''define'', ''lambda'', ''begin''}"
    by (simp add: application_head_def arg_def)
  then have "s_eval (Suc n) (Arr (f # es)) env s =
      (case eval_each (s_eval n) (f # es) env s of
         Inl e \<Rightarrow> Inl e
       | Inr (expressions, s1) \<Rightarrow> apply_proc (s_eval n) expressions s1)"
    by (simp del: eval_each.simps)
  also have "\<dots> = (case new_Env vars (Some args) (EnvRef cenv) of
              Inl e \<Rightarrow> Inl e
            | Inr ob \<Rightarrow> s_eval n body (length s1) (s1 @ [ob]))"
    using assms(2) by (simp add: apply_proc_def arg_def del: eval_each.simps)
  finally show ?thesis .
qed

lemma parse_identity_call:
  "parse ''((lambda (a) a) 5)''
     = Inr (Arr [Arr [Str ''lambda'', Arr [Str ''a''], Str ''a''], Num (Fin 5)])"
  by (simp add: parse_defs)

lemma identity_call:
  "s_eval (Suc (Suc n)) (Arr [Arr [Str ''lambda'', Arr [Str ''a''], Str ''a''], Num (Fin 5)]) r s
     = Inr (Num (Fin 5), s @ [[(''a'', Num (Fin 5)), (''_parent'', EnvRef r)]])"
  by (simp add: env_defs apply_proc_def Env_find.simps)

lemma parse_nested_call:
  "parse ''(((lambda (a) (lambda (b) a)) 1) 2)''
     = Inr (Arr [Arr [Arr [Str ''lambda'', Arr [Str ''a''],
                           Arr [Str ''lambda'', Arr [Str ''b''], Str ''a'']],
                      Num (Fin 1)],
                 Num (Fin 2)])"
  by (simp add: parse_defs)

lemma nested_call:
  "s_eval (Suc (Suc (Suc n)))
     (Arr [Arr [Arr [Str ''lambda'', Arr [Str ''a''],
                     Arr [Str ''lambda'', Arr [Str ''b''], Str ''a'']],
                Num (Fin 1)],
           Num (Fin 2)]) r s
     = Inr (Num (Fin 1),
            s @ [[(''a'', Num (Fin 1)), (''_parent'', EnvRef r)],
                 [(''b'', Num (Fin 2)), (''_parent'', EnvRef (length s))]])"
  by (simp add: env_defs apply_proc_def Env_find.simps nth_append)

section \<open>Claims\<close>

text \<open>
  C1. \<^verbatim>\<open>find(name)\<close> is to return the nearest scope that owns a binding for the name,
  whatever the bound value. The source tests \<^verbatim>\<open>this[variable]\<close> for truthiness. In a
  root scope that binds \<open>x\<close> to the number 0, \<^verbatim>\<open>find('x')\<close> throws the
  undefined-variable error although the scope owns the binding; when the inner scope
  binds \<open>x\<close> to \<^verbatim>\<open>#f\<close> and the outer one to 1, \<^verbatim>\<open>find\<close> returns the outer scope;
  and \<^verbatim>\<open>(begin (define x 0) x)\<close> fails in the global environment.
\<close>

theorem find_misses_falsy_binding:
  "Env_find [[(''_parent'', Undefined), (''x'', Num (Fin 0))]] 0 (Str ''x'')
     = Inl (SyntaxError ''undefined variable `x`'') \<and>
   Env_find [[(''_parent'', Undefined), (''x'', Num (Fin 1))],
             [(''x'', Bool False), (''_parent'', EnvRef 0)]] 1 (Str ''x'') = Inr 0 \<and>
   eval_parse (Suc (Suc (Suc n))) ''(begin (define x 0) x)'' global_env [global_object]
     = Inl (SyntaxError ''undefined variable `x`'')"
proof -
  have p: "parse ''(begin (define x 0) x)''
             = Inr (Arr [Str ''begin'', Arr [Str ''define'', Str ''x'', Num (Fin 0)], Str ''x''])"
    by (simp add: parse_defs)
  have "eval_parse (Suc (Suc (Suc n))) ''(begin (define x 0) x)'' global_env [global_object]
          = Inl (SyntaxError ''undefined variable `x`'')"
    by (simp add: eval_parse_def p global_env_def global_object_def env_defs Env_find.simps)
  then show ?thesis
    by (simp add: Env_find.simps get_prop_def inherited_names_def)
qed

text \<open>
  C3, as stated, fails: \<^verbatim>\<open>atom("0.0")\<close> is not a value distinct from the integer 0.
  For \<^verbatim>\<open>"0.0"\<close> both \<^verbatim>\<open>parseInt\<close> and \<^verbatim>\<open>parseFloat\<close> give 0, so the last branch
  returns the \<^verbatim>\<open>parseInt\<close> value, the same value \<^verbatim>\<open>atom("0")\<close> returns.
\<close>

theorem atom_0_0_counterexample:
  "atom ''0.0'' = atom ''0'' \<and> atom ''0.0'' = Num (parseInt ''0.0'')"
  by (simp add: atom_0_0 atom_0) (simp add: number_defs)

text \<open>
  C3, amended: \<^verbatim>\<open>atom("0.0")\<close> is the number 0. In general a token that the host's
  \<^verbatim>\<open>Number\<close> conversion accepts is returned as its \<^verbatim>\<open>parseInt\<close> value when
  re-parsing it as a float yields the same numeric value, and as its \<^verbatim>\<open>parseFloat\<close>
  value otherwise; a token that \<^verbatim>\<open>Number\<close> rejects is never returned as a number.
\<close>

theorem atom_number_classification:
  "atom ''0.0'' = Num (Fin 0) \<and>
   (\<not> isNaN_string token \<longrightarrow>
      atom token = Num (if num_eq (parseFloat token) (parseInt token)
                        then parseInt token else parseFloat token)) \<and>
   (isNaN_string token \<longrightarrow> (\<forall>n. atom token \<noteq> Num n))"
  by (simp add: atom_0_0 atom_number atom_not_number)

theorem atom_number_classification_witness:
  "\<not> isNaN_string ''15.4243'' \<and> atom ''15.4243'' = Num (Fin (154243 / 10000)) \<and>
   isNaN_string ''abc'' \<and> (\<forall>n. atom ''abc'' \<noteq> Num n)"
proof -
  have a: "\<not> isNaN_string ''15.4243''" by (simp add: number_defs)
  have b: "isNaN_string ''abc''" by (simp add: number_defs)
  have c: "parseFloat ''15.4243'' = Fin (154243 / 10000)" "parseInt ''15.4243'' = Fin 15"
    by (simp_all add: number_defs)
  from a b c atom_number_classification [of "''15.4243''"] atom_number_classification [of "''abc''"]
  show ?thesis by simp
qed

text \<open>
  C6. A token that is neither number nor boolean is to become a \<^verbatim>\<open>StringLiteral\<close> only
  when it is wrapped in double quotes, and a symbol otherwise. The test of the source,
  \<^verbatim>\<open>/".*"/\<close>, is not anchored: the token \<^verbatim>\<open>x"y"z\<close> passes it, and
  \<^verbatim>\<open>slice(1, -1)\<close> then cuts the first and last character, whatever they are. The
  result is the \<^verbatim>\<open>StringLiteral\<close> holding \<^verbatim>\<open>"y"\<close>, not the symbol \<^verbatim>\<open>x"y"z\<close>.
\<close>

theorem atom_quote_test_not_anchored:
  "atom [CHR ''x'', CHR 0x22, CHR ''y'', CHR 0x22, CHR ''z'']
     = StringLiteral [CHR 0x22, CHR ''y'', CHR 0x22]"
  by (simp add: atom_def number_defs slice_1_m1_def is_line_terminator_def)

text \<open>
  C7. \<^verbatim>\<open>parse\<close> reads exactly one balanced top-level form and ignores the tokens after
  it: on the tokens of any form followed by any tokens, the reader returns the nested
  value of that form and leaves the trailing tokens, which \<^verbatim>\<open>parse\<close> drops.
  \<^verbatim>\<open>parse("(())(ignored)")\<close> is a 1-element list holding one empty list, and
  \<^verbatim>\<open>parse("(()())")\<close> is a 2-element list of two empty lists.
\<close>

theorem parse_reads_one_form:
  "(atoms_ok e \<longrightarrow> nested_repr (tokens_of e @ r) = Inr (repr_of e, r)) \<and>
   (atoms_ok e \<longrightarrow> tokenize s = Some (tokens_of e @ r) \<longrightarrow> parse s = Inr (repr_of e)) \<and>
   parse ''(())(ignored)'' = Inr (Arr [Arr []]) \<and>
   parse ''(()())'' = Inr (Arr [Arr [], Arr []])"
proof -
  have "parse ''(())(ignored)'' = Inr (Arr [Arr []])"
    by (simp add: parse_def tokenize_defs nested_repr.simps read_list.simps)
  moreover have "parse ''(()())'' = Inr (Arr [Arr [], Arr []])"
    by (simp add: parse_def tokenize_defs nested_repr.simps read_list.simps)
  ultimately show ?thesis
    by (simp add: nested_repr_form parse_def)
qed

theorem parse_reads_one_form_witness:
  "atoms_ok (SList [SList []]) \<and>
   tokenize ''(())(ignored)'' = Some (tokens_of (SList [SList []]) @ [''('', ''ignored'', '')'']) \<and>
   nested_repr (tokens_of (SList [SList []]) @ [''('', ''ignored'', '')''])
     = Inr (Arr [Arr []], [''('', ''ignored'', '')'']) \<and>
   parse ''(())(ignored)'' = Inr (repr_of (SList [SList []]))"
proof -
  have a: "atoms_ok (SList [SList []])" by simp
  have t: "tokenize ''(())(ignored)'' = Some (tokens_of (SList [SList []]) @ [''('', ''ignored'', '')''])"
    by (simp add: tokenize_defs)
  from a t
    parse_reads_one_form [of "SList [SList []]" "[''('', ''ignored'', '')'']" "''(())(ignored)''"]
  show ?thesis by simp
qed

text \<open>
  C9. On an input with no tokens (empty, white space only, comments only)
  \<^verbatim>\<open>tokenize\<close> returns \<^verbatim>\<open>null\<close>, never an empty sequence, and \<^verbatim>\<open>parse\<close> of such an
  input neither returns an expression nor raises a \<^verbatim>\<open>SyntaxError\<close>: the reader
  dereferences \<^verbatim>\<open>null\<close>, a \<^verbatim>\<open>TypeError\<close> of the host.
\<close>

theorem tokenize_blank_is_null:
  "tokenize s \<noteq> Some [] \<and>
   (blank_or_comments False s \<longrightarrow> tokenize s = None) \<and>
   (tokenize s = None \<longrightarrow> parse s = Inl TypeError)"
  by (simp add: tokenize_not_empty blank_tokenize parse_null)

theorem tokenize_blank_is_null_witness:
  "blank_or_comments False ''  ; (note)'' \<and> tokenize ''  ; (note)'' = None \<and>
   parse ''  ; (note)'' = Inl TypeError \<and>
   blank_or_comments False [] \<and> parse [] = Inl TypeError \<and>
   blank_or_comments False ''   '' \<and> parse ''   '' = Inl TypeError"
proof -
  have b: "blank_or_comments False ''  ; (note)''" "blank_or_comments False []"
    "blank_or_comments False ''   ''"
    by (simp_all add: is_ws_def)
  from b tokenize_blank_is_null [of "''  ; (note)''"] tokenize_blank_is_null [of "[]"]
    tokenize_blank_is_null [of "''   ''"]
  show ?thesis by simp
qed

text \<open>
  C2. A \<^verbatim>\<open>cond\<close> form is to return the result of evaluating the \<open>CONSEQ\<close> of the first
  clause whose \<open>TEST\<close> is true. The loop of the source stores \<^verbatim>\<open>x[i][1]\<close> itself in
  \<^verbatim>\<open>retval\<close> and returns it: \<^verbatim>\<open>(cond (#t (+ 1 2)))\<close> gives the list
  \<^verbatim>\<open>(+ 1 2)\<close>, not 3, in every environment.
\<close>

theorem cond_returns_conseq_unevaluated:
  "parse ''(cond (#t (+ 1 2)))''
     = Inr (Arr [Str ''cond'', Arr [Bool True, Arr [Str ''+'', Num (Fin 1), Num (Fin 2)]]]) \<and>
   eval_parse (Suc (Suc n)) ''(cond (#t (+ 1 2)))'' env s
     = Inr (Arr [Str ''+'', Num (Fin 1), Num (Fin 2)], s)"
proof -
  have p: "parse ''(cond (#t (+ 1 2)))''
     = Inr (Arr [Str ''cond'', Arr [Bool True, Arr [Str ''+'', Num (Fin 1), Num (Fin 2)]]])"
    by (simp add: parse_defs)
  then show ?thesis by (simp add: eval_parse_def arg_def)
qed

text \<open>
  C4, as stated, fails: the source resolves \<open>NAME\<close> before it evaluates \<open>EXPR\<close>. With
  \<open>x\<close> bound to 1 in the outer scope only, \<^verbatim>\<open>(set! x (begin (define x 7) 2))\<close> in the
  inner scope writes 2 into the outer scope and leaves the 7 that \<open>EXPR\<close> defined in the
  inner one. Evaluating \<open>EXPR\<close> first and resolving \<open>NAME\<close> then, as the claim has it,
  would write 2 into the inner scope and leave the outer 1.
\<close>

theorem set_order_counterexample:
  "s_eval 4
     (Arr [Str ''set!'', Str ''x'',
           Arr [Str ''begin'', Arr [Str ''define'', Str ''x'', Num (Fin 7)], Num (Fin 2)]])
     1 [[(''_parent'', Undefined), (''x'', Num (Fin 1))], [(''_parent'', EnvRef 0)]]
   = Inr (Undefined, [[(''_parent'', Undefined), (''x'', Num (Fin 2))],
                      [(''_parent'', EnvRef 0), (''x'', Num (Fin 7))]]) \<and>
   set_as_claimed 3 (Str ''x'')
     (Arr [Str ''begin'', Arr [Str ''define'', Str ''x'', Num (Fin 7)], Num (Fin 2)])
     1 [[(''_parent'', Undefined), (''x'', Num (Fin 1))], [(''_parent'', EnvRef 0)]]
   = Inr (Undefined, [[(''_parent'', Undefined), (''x'', Num (Fin 1))],
                      [(''_parent'', EnvRef 0), (''x'', Num (Fin 2))]])"
  by (simp add: set_as_claimed_def numeral_nat env_defs Env_find.simps)

text \<open>
  C4, amended: for every environment and every form \<^verbatim>\<open>(set! NAME EXPR)\<close> with both
  operands, \<^verbatim>\<open>_eval\<close> first resolves \<open>NAME\<close> with \<^verbatim>\<open>find\<close> on the current environment.
  If \<^verbatim>\<open>find\<close> fails, the evaluation fails with its error and \<open>EXPR\<close> is not
  evaluated. Otherwise \<open>EXPR\<close> is evaluated in the current environment; its error is
  the error of the form, and its value is stored under \<open>NAME\<close> in the scope that
  \<^verbatim>\<open>find\<close> returned, every other binding left as \<open>EXPR\<close> left it.
\<close>

theorem set_resolves_name_first:
  "(name \<noteq> Undefined \<and> expr \<noteq> Undefined \<and> Env_find s env name = Inl e \<longrightarrow>
      s_eval (Suc n) (Arr [Str ''set!'', name, expr]) env s = Inl e) \<and>
   (expr \<noteq> Undefined \<and> Env_find s env (Str k) = Inr a \<and> s_eval n expr env s = Inl e \<longrightarrow>
      s_eval (Suc n) (Arr [Str ''set!'', Str k, expr]) env s = Inl e) \<and>
   (expr \<noteq> Undefined \<and> Env_find s env (Str k) = Inr a \<and> k \<noteq> ''__proto__'' \<and>
    s_eval n expr env s = Inr (w, s1) \<longrightarrow>
      s_eval (Suc n) (Arr [Str ''set!'', Str k, expr]) env s
        = Inr (Undefined, s1[a := AList.update k w (s1 ! a)]))"
proof (intro conjI impI)
  assume "name \<noteq> Undefined \<and> expr \<noteq> Undefined \<and> Env_find s env name = Inl e"
  then show "s_eval (Suc n) (Arr [Str ''set!'', name, expr]) env s = Inl e"
    by (intro set_fails) simp_all
next
  assume "expr \<noteq> Undefined \<and> Env_find s env (Str k) = Inr a \<and> s_eval n expr env s = Inl e"
  then show "s_eval (Suc n) (Arr [Str ''set!'', Str k, expr]) env s = Inl e"
    by (simp add: arg_def)
next
  assume "expr \<noteq> Undefined \<and> Env_find s env (Str k) = Inr a \<and> k \<noteq> ''__proto__'' \<and>
    s_eval n expr env s = Inr (w, s1)"
  then show "s_eval (Suc n) (Arr [Str ''set!'', Str k, expr]) env s
        = Inr (Undefined, s1[a := AList.update k w (s1 ! a)])"
    by (intro set_returns) simp_all
qed

theorem set_resolves_name_first_witness:
  "Env_find [[(''_parent'', Undefined), (''testval'', Num (Fin 12))]] 0 (Str ''y'')
     = Inl (SyntaxError ''undefined variable `y`'') \<and>
   s_eval 2 (Arr [Str ''set!'', Str ''y'', Num (Fin 5)]) 0
     [[(''_parent'', Undefined), (''testval'', Num (Fin 12))]]
     = Inl (SyntaxError ''undefined variable `y`'') \<and>
   Env_find [[(''_parent'', Undefined), (''testval'', Num (Fin 12))]] 0 (Str ''testval'') = Inr 0 \<and>
   s_eval 1 (Str ''y'') 0 [[(''_parent'', Undefined), (''testval'', Num (Fin 12))]]
     = Inl (SyntaxError ''undefined variable `y`'') \<and>
   s_eval 2 (Arr [Str ''set!'', Str ''testval'', Str ''y'']) 0
     [[(''_parent'', Undefined), (''testval'', Num (Fin 12))]]
     = Inl (SyntaxError ''undefined variable `y`'') \<and>
   s_eval 1 (Num (Fin 5)) 0 [[(''_parent'', Undefined), (''testval'', Num (Fin 12))]]
     = Inr (Num (Fin 5), [[(''_parent'', Undefined), (''testval'', Num (Fin 12))]]) \<and>
   s_eval 2 (Arr [Str ''set!'', Str ''testval'', Num (Fin 5)]) 0
     [[(''_parent'', Undefined), (''testval'', Num (Fin 12))]]
     = Inr (Undefined, [[(''_parent'', Undefined), (''testval'', Num (Fin 5))]])"
proof -
  let ?s = "[[(''_parent'', Undefined), (''testval'', Num (Fin 12))]]"
  let ?e = "SyntaxError ''undefined variable `y`''"
  have f1: "Env_find ?s 0 (Str ''y'') = Inl ?e"
    by (simp add: Env_find.simps env_defs)
  have f2: "Env_find ?s 0 (Str ''testval'') = Inr 0"
    by (simp add: Env_find.simps env_defs)
  have e1: "s_eval 1 (Str ''y'') 0 ?s = Inl ?e"
    by (simp add: Env_find.simps env_defs)
  have e2: "s_eval 1 (Num (Fin 5)) 0 ?s = Inr (Num (Fin 5), ?s)"
    by simp
  have k: "''testval'' \<noteq> ''__proto__''" by simp
  from f1 set_resolves_name_first [of "Str ''y''" "Num (Fin 5)" ?s 0 ?e 1]
  have a: "s_eval 2 (Arr [Str ''set!'', Str ''y'', Num (Fin 5)]) 0 ?s = Inl ?e"
    by (simp add: numeral_2_eq_2)
  from f2 e1 set_resolves_name_first [of _ "Str ''y''" ?s 0 ?e 1 "''testval''" 0]
  have b: "s_eval 2 (Arr [Str ''set!'', Str ''testval'', Str ''y'']) 0 ?s = Inl ?e"
    by (simp add: numeral_2_eq_2)
  from f2 e2 k
    set_resolves_name_first [of _ "Num (Fin 5)" ?s 0 _ 1 "''testval''" 0 "Num (Fin 5)" ?s]
  have c: "s_eval 2 (Arr [Str ''set!'', Str ''testval'', Num (Fin 5)]) 0 ?s
             = Inr (Undefined, [[(''_parent'', Undefined), (''testval'', Num (Fin 5))]])"
    by (simp add: numeral_2_eq_2)
  from f1 f2 e1 e2 a b c show ?thesis by simp
qed

text \<open>
  C5. A \<^verbatim>\<open>lambda\<close> form gives a closure that holds the environment the form was
  evaluated in. Calling a closure builds a fresh environment, whatever the environment
  of the caller is: its parent is the environment the closure holds, it goes to the end
  of the store with every environment already there left as it was, and the body runs
  in it. It binds the parameter names to the argument values by position (where a name
  is repeated the last position stands, as each binding is written in turn, and the
  parent link is written last); a parameter named \<^verbatim>\<open>__proto__\<close> is outside
  the model. So \<^verbatim>\<open>(((lambda (a) (lambda (b) a)) 1) 2)\<close> is 1 in every environment: the
  environment of the second call has the environment of the first call as parent, not
  that of its caller. After \<^verbatim>\<open>((lambda (a) a) 5)\<close> in a root environment with no
  binding for \<open>a\<close>, the value is 5 and the root still has no binding for \<open>a\<close>.
\<close>

theorem closure_call_environment:
  "s_eval (Suc n) (Arr [Str ''lambda'', params, body]) env s =
     (if params = Undefined \<or> body = Undefined
      then Inl (SyntaxError ''lambda definition takes two arguments'')
      else Inr (Closure params body env, s)) \<and>
   (application_head f \<and>
    eval_each (s_eval n) (f # es) env s = Inr (Closure vars expr cenv # args, s1) \<longrightarrow>
      s_eval (Suc n) (Arr (f # es)) env s =
        (case new_Env vars (Some args) (EnvRef cenv) of
           Inl e \<Rightarrow> Inl e
         | Inr ob \<Rightarrow> s_eval n expr (length s1) (s1 @ [ob]))) \<and>
   (new_Env vars (Some args) (EnvRef cenv) = Inr ob \<longrightarrow>
      map_of ob ''_parent'' = Some (EnvRef cenv)) \<and>
   (''__proto__'' \<notin> set names \<longrightarrow>
      (\<exists>ob. new_Env (Arr (map Str names)) (Some args) (EnvRef cenv) = Inr ob \<and>
            map_of ob = (map_of (rev (positional names args)))(''_parent'' \<mapsto> EnvRef cenv))) \<and>
   eval_parse (Suc (Suc (Suc n))) ''(((lambda (a) (lambda (b) a)) 1) 2)'' r s
     = Inr (Num (Fin 1),
            s @ [[(''a'', Num (Fin 1)), (''_parent'', EnvRef r)],
                 [(''b'', Num (Fin 2)), (''_parent'', EnvRef (length s))]]) \<and>
   (r < length s \<and> map_of (s ! r) ''a'' = None \<longrightarrow>
      (\<exists>s'. eval_parse (Suc (Suc n)) ''((lambda (a) a) 5)'' r s = Inr (Num (Fin 5), s') \<and>
            s' ! r = s ! r \<and> map_of (s' ! r) ''a'' = None))"
proof (intro conjI impI)
  show "s_eval (Suc n) (Arr [Str ''lambda'', params, body]) env s =
     (if params = Undefined \<or> body = Undefined
      then Inl (SyntaxError ''lambda definition takes two arguments'')
      else Inr (Closure params body env, s))"
    by (rule lambda_captures)
next
  assume "application_head f \<and>
    eval_each (s_eval n) (f # es) env s = Inr (Closure vars expr cenv # args, s1)"
  then show "s_eval (Suc n) (Arr (f # es)) env s =
        (case new_Env vars (Some args) (EnvRef cenv) of
           Inl e \<Rightarrow> Inl e
         | Inr ob \<Rightarrow> s_eval n expr (length s1) (s1 @ [ob]))"
    by (intro application_call) simp_all
next
  assume "new_Env vars (Some args) (EnvRef cenv) = Inr ob"
  then show "map_of ob ''_parent'' = Some (EnvRef cenv)"
    by (rule new_Env_parent)
next
  assume "''__proto__'' \<notin> set names"
  then show "\<exists>ob. new_Env (Arr (map Str names)) (Some args) (EnvRef cenv) = Inr ob \<and>
            map_of ob = (map_of (rev (positional names args)))(''_parent'' \<mapsto> EnvRef cenv)"
    by (rule new_Env_positional)
next
  show "eval_parse (Suc (Suc (Suc n))) ''(((lambda (a) (lambda (b) a)) 1) 2)'' r s
     = Inr (Num (Fin 1),
            s @ [[(''a'', Num (Fin 1)), (''_parent'', EnvRef r)],
                 [(''b'', Num (Fin 2)), (''_parent'', EnvRef (length s))]])"
    unfolding eval_parse_def parse_nested_call by (simp only: nested_call sum.case)
next
  assume a: "r < length s \<and> map_of (s ! r) ''a'' = None"
  have "eval_parse (Suc (Suc n)) ''((lambda (a) a) 5)'' r s
          = Inr (Num (Fin 5), s @ [[(''a'', Num (Fin 5)), (''_parent'', EnvRef r)]])"
    unfolding eval_parse_def parse_identity_call by (simp only: identity_call sum.case)
  moreover from a have "(s @ [[(''a'', Num (Fin 5)), (''_parent'', EnvRef r)]]) ! r = s ! r"
    by (simp add: nth_append)
  ultimately show "\<exists>s'. eval_parse (Suc (Suc n)) ''((lambda (a) a) 5)'' r s
            = Inr (Num (Fin 5), s') \<and> s' ! r = s ! r \<and> map_of (s' ! r) ''a'' = None"
    using a by simp
qed

theorem closure_call_environment_witness:
  "application_head (Str ''f'') \<and>
   eval_each (s_eval 1) [Str ''f'', Num (Fin 9)] 1
     [[(''_parent'', Undefined), (''f'', Closure (Arr [Str ''x'']) (Str ''x'') 0)],
      [(''_parent'', EnvRef 0)]]
     = Inr ([Closure (Arr [Str ''x'']) (Str ''x'') 0, Num (Fin 9)],
            [[(''_parent'', Undefined), (''f'', Closure (Arr [Str ''x'']) (Str ''x'') 0)],
             [(''_parent'', EnvRef 0)]]) \<and>
   new_Env (Arr [Str ''x'']) (Some [Num (Fin 9)]) (EnvRef 0)
     = Inr [(''x'', Num (Fin 9)), (''_parent'', EnvRef 0)] \<and>
   map_of [(''x'', Num (Fin 9)), (''_parent'', EnvRef 0)] ''_parent'' = Some (EnvRef 0) \<and>
   s_eval 2 (Arr [Str ''f'', Num (Fin 9)]) 1
     [[(''_parent'', Undefined), (''f'', Closure (Arr [Str ''x'']) (Str ''x'') 0)],
      [(''_parent'', EnvRef 0)]]
     = Inr (Num (Fin 9),
            [[(''_parent'', Undefined), (''f'', Closure (Arr [Str ''x'']) (Str ''x'') 0)],
             [(''_parent'', EnvRef 0)],
             [(''x'', Num (Fin 9)), (''_parent'', EnvRef 0)]]) \<and>
   ''__proto__'' \<notin> set [''a'', ''b'', ''a''] \<and>
   (\<exists>ob. new_Env (Arr (map Str [''a'', ''b'', ''a''])) (Some [Num (Fin 1), Num (Fin 2)]) (EnvRef 4)
           = Inr ob \<and>
         map_of ob ''a'' = Some Undefined \<and> map_of ob ''b'' = Some (Num (Fin 2)) \<and>
         map_of ob ''_parent'' = Some (EnvRef 4) \<and> map_of ob ''c'' = None) \<and>
   0 < length [global_object] \<and> map_of ([global_object] ! 0) ''a'' = None \<and>
   (\<exists>s'. eval_parse 2 ''((lambda (a) a) 5)'' 0 [global_object] = Inr (Num (Fin 5), s') \<and>
         map_of (s' ! 0) ''a'' = None)"
proof -
  let ?s = "[[(''_parent'', Undefined), (''f'', Closure (Arr [Str ''x'']) (Str ''x'') 0)],
             [(''_parent'', EnvRef 0)]]"
  let ?ob = "[(''x'', Num (Fin 9)), (''_parent'', EnvRef 0)]"
  have h: "application_head (Str ''f'')" by (simp add: application_head_def)
  have e: "eval_each (s_eval 1) [Str ''f'', Num (Fin 9)] 1 ?s
             = Inr ([Closure (Arr [Str ''x'']) (Str ''x'') 0, Num (Fin 9)], ?s)"
    by (simp add: Env_find.simps env_defs)
  have ob: "new_Env (Arr [Str ''x'']) (Some [Num (Fin 9)]) (EnvRef 0) = Inr ?ob"
    by (simp add: env_defs)
  have body: "s_eval 1 (Str ''x'') (length ?s) (?s @ [?ob]) = Inr (Num (Fin 9), ?s @ [?ob])"
    by (simp add: Env_find.simps env_defs)
  from h e have he: "application_head (Str ''f'') \<and>
      eval_each (s_eval 1) (Str ''f'' # [Num (Fin 9)]) 1 ?s
        = Inr (Closure (Arr [Str ''x'']) (Str ''x'') 0 # [Num (Fin 9)], ?s)"
    by simp
  from closure_call_environment
         [where n = 1 and f = "Str ''f''" and es = "[Num (Fin 9)]" and env = 1 and s = ?s
            and vars = "Arr [Str ''x'']" and expr = "Str ''x''" and cenv = 0
            and args = "[Num (Fin 9)]" and ?s1.0 = ?s,
          THEN conjunct2, THEN conjunct1, THEN mp, OF he]
  have "s_eval (Suc 1) (Arr [Str ''f'', Num (Fin 9)]) 1 ?s
          = s_eval 1 (Str ''x'') (length ?s) (?s @ [?ob])"
    by (simp only: ob sum.case)
  with body have call: "s_eval 2 (Arr [Str ''f'', Num (Fin 9)]) 1 ?s = Inr (Num (Fin 9), ?s @ [?ob])"
    by (simp only: numeral_2_eq_2 One_nat_def)
  from closure_call_environment
         [where vars = "Arr [Str ''x'']" and args = "[Num (Fin 9)]" and cenv = 0 and ob = ?ob,
          THEN conjunct2, THEN conjunct2, THEN conjunct1, THEN mp, OF ob]
  have parent: "map_of ?ob ''_parent'' = Some (EnvRef 0)" .
  have np: "''__proto__'' \<notin> set [''a'', ''b'', ''a'']" by simp
  from closure_call_environment
         [where names = "[''a'', ''b'', ''a'']" and args = "[Num (Fin 1), Num (Fin 2)]"
            and cenv = 4,
          THEN conjunct2, THEN conjunct2, THEN conjunct2, THEN conjunct1, THEN mp, OF np]
  obtain ob' where
    "new_Env (Arr (map Str [''a'', ''b'', ''a''])) (Some [Num (Fin 1), Num (Fin 2)]) (EnvRef 4)
       = Inr ob'"
    "map_of ob' = (map_of (rev (positional [''a'', ''b'', ''a''] [Num (Fin 1), Num (Fin 2)])))
                    (''_parent'' \<mapsto> EnvRef 4)"
    by blast
  moreover have "positional [''a'', ''b'', ''a''] [Num (Fin 1), Num (Fin 2)]
                   = [(''a'', Num (Fin 1)), (''b'', Num (Fin 2)), (''a'', Undefined)]"
    by (simp add: positional_def arg_def upt_rec)
  ultimately have names:
    "\<exists>ob. new_Env (Arr (map Str [''a'', ''b'', ''a''])) (Some [Num (Fin 1), Num (Fin 2)]) (EnvRef 4)
           = Inr ob \<and>
         map_of ob ''a'' = Some Undefined \<and> map_of ob ''b'' = Some (Num (Fin 2)) \<and>
         map_of ob ''_parent'' = Some (EnvRef 4) \<and> map_of ob ''c'' = None"
    by simp
  have g: "0 < length [global_object] \<and> map_of ([global_object] ! 0) ''a'' = None"
    by (simp add: global_object_def)
  from closure_call_environment
         [where r = 0 and s = "[global_object]" and n = 0,
          THEN conjunct2, THEN conjunct2, THEN conjunct2, THEN conjunct2, THEN conjunct2,
          THEN mp, OF g]
  have root: "\<exists>s'. eval_parse 2 ''((lambda (a) a) 5)'' 0 [global_object] = Inr (Num (Fin 5), s') \<and>
         map_of (s' ! 0) ''a'' = None"
    by (simp only: numeral_2_eq_2) blast
  from h e ob parent call np names g root show ?thesis
    by (simp del: s_eval.simps eval_each.simps)
qed

text \<open>
  C8. A form \<^verbatim>\<open>(if TEST CONSEQ ALT)\<close> with fewer than three operands after the keyword
  fails with the \<^verbatim>\<open>SyntaxError\<close> of \<^verbatim>\<open>if\<close>, before anything is evaluated. In the
  global environment \<^verbatim>\<open>(if #t 2)\<close> fails so, and
  \<^verbatim>\<open>(if (< 5 5) (+ 2 5) (- 10 2))\<close> is 8, with any fuel from 3 on.
\<close>

theorem if_requires_three_operands:
  "(length operands < 3 \<longrightarrow>
      s_eval (Suc n) (Arr (Str ''if'' # operands)) env s
        = Inl (SyntaxError ''if takes three arguments'')) \<and>
   global_store = Inr [global_object] \<and>
   eval_parse (Suc n) ''(if #t 2)'' global_env [global_object]
     = Inl (SyntaxError ''if takes three arguments'') \<and>
   eval_parse (Suc (Suc (Suc n))) ''(if (< 5 5) (+ 2 5) (- 10 2))'' global_env [global_object]
     = Inr (Num (Fin 8), [global_object])"
proof -
  have p: "parse ''(if (< 5 5) (+ 2 5) (- 10 2))'' =
      Inr (Arr [Str ''if'', Arr [Str ''<'', Num (Fin 5), Num (Fin 5)],
                Arr [Str ''+'', Num (Fin 2), Num (Fin 5)],
                Arr [Str ''-'', Num (Fin 10), Num (Fin 2)]])"
    by (simp add: parse_defs)
  have "eval_parse (Suc n) ''(if #t 2)'' global_env [global_object]
          = Inl (SyntaxError ''if takes three arguments'')"
    by (simp add: eval_parse_def parse_defs arg_def)
  moreover have "eval_parse (Suc (Suc (Suc n))) ''(if (< 5 5) (+ 2 5) (- 10 2))''
                   global_env [global_object] = Inr (Num (Fin 8), [global_object])"
    by (simp add: eval_parse_def p global_env_def global_object_def env_defs Env_find.simps
          apply_proc_def apply_prim_def apply_binary_def arithmetic_def exact_number_def)
  ultimately show ?thesis
    by (simp add: if_operand_missing global_store_value del: s_eval.simps)
qed

theorem if_requires_three_operands_witness:
  "length [Bool True, Num (Fin 2)] < 3 \<and>
   s_eval 1 (Arr [Str ''if'', Bool True, Num (Fin 2)]) 0 [global_object]
     = Inl (SyntaxError ''if takes three arguments'')"
  using if_requires_three_operands [of "[Bool True, Num (Fin 2)]" 0 0 "[global_object]"]
  by (simp del: s_eval.simps)

text \<open>
  C10. A \<^verbatim>\<open>define\<close> or \<^verbatim>\<open>set!\<close> form never returns the value it bound: whenever the
  evaluation of such a form returns, the value is \<^verbatim>\<open>undefined\<close>. It does return when
  \<open>EXPR\<close> does (and, for \<^verbatim>\<open>set!\<close>, \<^verbatim>\<open>find\<close> resolved the name), and then the store is
  the one \<open>EXPR\<close> left with the one binding written.
\<close>

theorem define_and_set_return_undefined:
  "(s_eval (Suc n) (Arr (Str ''define'' # rest)) env s = Inr (v, s') \<longrightarrow> v = Undefined) \<and>
   (s_eval (Suc n) (Arr (Str ''set!'' # rest)) env s = Inr (v, s') \<longrightarrow> v = Undefined) \<and>
   (expr \<noteq> Undefined \<and> env < length s \<and> k \<noteq> ''__proto__'' \<and>
    s_eval n expr env s = Inr (w, s1) \<longrightarrow>
      s_eval (Suc n) (Arr [Str ''define'', Str k, expr]) env s
        = Inr (Undefined, s1[env := AList.update k w (s1 ! env)])) \<and>
   (expr \<noteq> Undefined \<and> Env_find s env (Str k) = Inr a \<and> k \<noteq> ''__proto__'' \<and>
    s_eval n expr env s = Inr (w, s1) \<longrightarrow>
      s_eval (Suc n) (Arr [Str ''set!'', Str k, expr]) env s
        = Inr (Undefined, s1[a := AList.update k w (s1 ! a)]))"
proof (intro conjI impI)
  assume "s_eval (Suc n) (Arr (Str ''define'' # rest)) env s = Inr (v, s')"
  then show "v = Undefined" by (rule define_value)
next
  assume "s_eval (Suc n) (Arr (Str ''set!'' # rest)) env s = Inr (v, s')"
  then show "v = Undefined" by (rule set_value)
next
  assume "expr \<noteq> Undefined \<and> env < length s \<and> k \<noteq> ''__proto__'' \<and>
    s_eval n expr env s = Inr (w, s1)"
  then show "s_eval (Suc n) (Arr [Str ''define'', Str k, expr]) env s
        = Inr (Undefined, s1[env := AList.update k w (s1 ! env)])"
    by (intro define_returns) simp_all
next
  assume "expr \<noteq> Undefined \<and> Env_find s env (Str k) = Inr a \<and> k \<noteq> ''__proto__'' \<and>
    s_eval n expr env s = Inr (w, s1)"
  then show "s_eval (Suc n) (Arr [Str ''set!'', Str k, expr]) env s
        = Inr (Undefined, s1[a := AList.update k w (s1 ! a)])"
    by (intro set_returns) simp_all
qed

theorem define_and_set_return_undefined_witness:
  "s_eval 1 (Num (Fin (35 / 2))) 0 [[(''_parent'', Undefined), (''testval'', Num (Fin 12))]]
     = Inr (Num (Fin (35 / 2)), [[(''_parent'', Undefined), (''testval'', Num (Fin 12))]]) \<and>
   Env_find [[(''_parent'', Undefined), (''testval'', Num (Fin 12))]] 0 (Str ''testval'') = Inr 0 \<and>
   s_eval 2 (Arr [Str ''define'', Str ''area'', Num (Fin (35 / 2))]) 0
     [[(''_parent'', Undefined), (''testval'', Num (Fin 12))]]
     = Inr (Undefined, [[(''_parent'', Undefined), (''testval'', Num (Fin 12)),
                         (''area'', Num (Fin (35 / 2)))]]) \<and>
   s_eval 2 (Arr [Str ''set!'', Str ''testval'', Num (Fin (35 / 2))]) 0
     [[(''_parent'', Undefined), (''testval'', Num (Fin 12))]]
     = Inr (Undefined, [[(''_parent'', Undefined), (''testval'', Num (Fin (35 / 2)))]])"
proof -
  let ?s = "[[(''_parent'', Undefined), (''testval'', Num (Fin 12))]]"
  let ?v = "Num (Fin (35 / 2))"
  have e: "s_eval 1 ?v 0 ?s = Inr (?v, ?s)" by simp
  have f: "Env_find ?s 0 (Str ''testval'') = Inr 0"
    by (simp add: Env_find.simps env_defs)
  have k: "''area'' \<noteq> ''__proto__''" "''testval'' \<noteq> ''__proto__''" by simp_all
  from e k
    define_and_set_return_undefined [of 1 _ 0 ?s _ _ ?v "''area''" ?v ?s]
  have d: "s_eval 2 (Arr [Str ''define'', Str ''area'', ?v]) 0 ?s
             = Inr (Undefined, [[(''_parent'', Undefined), (''testval'', Num (Fin 12)),
                                 (''area'', ?v)]])"
    by (simp add: numeral_2_eq_2 del: s_eval.simps)
  from e f k
    define_and_set_return_undefined [of 1 _ 0 ?s _ _ ?v "''testval''" ?v ?s 0]
  have t: "s_eval 2 (Arr [Str ''set!'', Str ''testval'', ?v]) 0 ?s
             = Inr (Undefined, [[(''_parent'', Undefined), (''testval'', ?v)]])"
    by (simp add: numeral_2_eq_2 del: s_eval.simps)
  from e f d t show ?thesis by (simp del: s_eval.simps)
qed

end
